theory Spec2Isabelle
  imports Complex_Main "HOL-Library.Multiset"
begin

section \<open>Python values and exceptions\<close>

text \<open>
  Exceptions are values: every function that can raise returns \<open>py_error + 'a\<close>, with
  \<open>Inl\<close> for the exception. \<open>NameError\<close> carries the unbound name, \<open>SystemExit\<close> the exit
  status.
\<close>

datatype py_error =
    ValueError
  | AssertionError
  | IndexError
  | TypeError
  | OverflowError
  | RuntimeError
  | AttributeError
  | FileNotFoundError
  | OSError
  | ZeroDivisionError
  | NameError string
  | SystemExit int

text \<open>
  The pseudo-random generator of the \<open>random\<close> module is modelled by the sequence of raw
  words it is going to produce; \<open>random.getstate()\<close> is the sequence that is left. How
  \<open>randbelow(n)\<close> makes a number below \<open>n\<close> of raw words, and how many words it takes, is
  the standard library's: a function \<open>rb\<close> from \<open>n\<close> and the state to the number and the
  state after the call, which is a parameter of the model.
\<close>

type_synonym rng = "nat \<Rightarrow> nat"

type_synonym randbelow = "nat \<Rightarrow> rng \<Rightarrow> nat \<times> rng"

section \<open>train.py: the examples and \<open>BatchGen\<close>\<close>

text \<open>
  One preprocessed example is a row \<open>x\<close> of the msgpack file. The fields that
  \<open>BatchGen\<close> reads are typed by the way it reads them: \<open>x[1]\<close> the token ids of the
  document, \<open>x[2]\<close> one feature vector per token, \<open>x[3]\<close> and \<open>x[4]\<close> the POS and NER tag
  numbers, \<open>x[5]\<close> the token ids of the question, \<open>x[6]\<close> the text, \<open>x[7]\<close> the token spans,
  and, in training rows only, \<open>x[8]\<close> the label. A row without a label has 8 fields, a
  row with one has 9.
\<close>

record example =
  x0 :: string
  x1 :: "int list"
  x2 :: "real list list"
  x3 :: "int list"
  x4 :: "int list"
  x5 :: "int list"
  x6 :: string
  x7 :: "(nat \<times> nat) list"
  x8 :: "real option"

definition n_fields :: "example \<Rightarrow> nat" where
  "n_fields x = (case x8 x of None \<Rightarrow> 8 | Some _ \<Rightarrow> 9)"

text \<open>\<open>sorted(data, key=lambda x: len(x[1]))\<close>: Python's sort is stable, as \<open>sort_key\<close> is.\<close>

definition sorted_by_len :: "example list \<Rightarrow> example list" where
  "sorted_by_len data = sort_key (\<lambda>x. length (x1 x)) data"

text \<open>
  \<open>range(start, stop, step)\<close> for a positive step. A zero step raises \<open>ValueError\<close> and
  a negative step from 0 gives the empty range; \<open>chunk\<close> below decides that before
  calling \<open>py_range\<close>.
\<close>

function py_range :: "nat \<Rightarrow> nat \<Rightarrow> nat \<Rightarrow> nat list" where
  "py_range i n k = (if k = 0 \<or> n \<le> i then [] else i # py_range (i + k) n k)"
  by pat_completeness auto
termination
  by (relation "measure (\<lambda>(i, n, k). n - i)") auto

declare py_range.simps [simp del]

text \<open>\<open>[data[i:i + batch_size] for i in range(0, len(data), batch_size)]\<close>\<close>

definition chunk :: "'a list \<Rightarrow> int \<Rightarrow> py_error + 'a list list" where
  "chunk data batch_size =
     (if batch_size = 0 then Inl ValueError
      else if batch_size < 0 then Inr []
      else Inr (map (\<lambda>i. take (nat batch_size) (drop i data))
                    (py_range 0 (length data) (nat batch_size))))"

text \<open>
  \<open>random.shuffle(x)\<close>, as the standard library writes it:
  \<^verbatim>\<open>
  for i in reversed(range(1, len(x))):
      j = randbelow(i + 1)
      x[i], x[j] = x[j], x[i]
  \<close>
  \<open>randbelow(i + 1)\<close> is below \<open>i + 1\<close>; the model reduces what \<open>rb\<close> returns modulo \<open>i + 1\<close>,
  which changes no number below \<open>i + 1\<close>.
\<close>

definition swap :: "'a list \<Rightarrow> nat \<Rightarrow> nat \<Rightarrow> 'a list" where
  "swap xs i j = xs[i := xs ! j, j := xs ! i]"

fun shuffle_from :: "randbelow \<Rightarrow> nat \<Rightarrow> 'a list \<Rightarrow> rng \<Rightarrow> 'a list \<times> rng" where
  "shuffle_from rb 0 xs g = (xs, g)"
| "shuffle_from rb (Suc i) xs g =
     (case rb (Suc i + 1) g of
        (j, g') \<Rightarrow> shuffle_from rb i (swap xs (Suc i) (j mod (Suc i + 1))) g')"

definition shuffle :: "randbelow \<Rightarrow> 'a list \<Rightarrow> rng \<Rightarrow> 'a list \<times> rng" where
  "shuffle rb xs g = shuffle_from rb (length xs - 1) xs g"

text \<open>
  The object \<open>BatchGen\<close>. \<open>pos_size\<close> and \<open>ner_size\<close> are class attributes: \<open>None\<close> until
  \<open>load_data\<close> sets them, which it does outside BERT mode only.
\<close>

record BatchGen =
  batch_size :: int
  eval :: bool
  gpu :: bool
  bert :: bool
  pad_token :: int
  data :: "example list list"
  pos_size :: "nat option"
  ner_size :: "nat option"

text \<open>
  \<open>BatchGen.__init__(data, batch_size, gpu, evaluation, bert)\<close>. \<open>rb\<close> is \<open>randbelow\<close> of the
  standard library, \<open>cls\<close> holds the two class attributes, \<open>bert_pad\<close> is \<open>pad_token_id\<close> of
  the pretrained tokenizer (the tokenizer is a library's), \<open>g\<close> the state of \<open>random\<close>. The
  result is the object and the state of \<open>random\<close> after the call.
\<close>

definition BatchGen_init ::
  "randbelow \<Rightarrow> nat option \<times> nat option \<Rightarrow> int \<Rightarrow> example list \<Rightarrow> int \<Rightarrow> bool \<Rightarrow> bool \<Rightarrow> bool \<Rightarrow>
     rng \<Rightarrow> py_error + (BatchGen \<times> rng)" where
  "BatchGen_init rb cls bert_pad data0 bs gpu0 evaluation bert0 g =
     (let pad = (if bert0 then bert_pad else 0);
          sorted_data = sorted_by_len data0
      in case chunk sorted_data bs of
           Inl e \<Rightarrow> Inl e
         | Inr chunks \<Rightarrow>
             (case (if \<not> evaluation then shuffle rb chunks g else (chunks, g)) of
                (batches, g') \<Rightarrow>
                  Inr (\<lparr>batch_size = bs, eval = evaluation, gpu = gpu0, bert = bert0,
                        pad_token = pad, data = batches,
                        pos_size = fst cls, ner_size = snd cls\<rparr>, g')))"

definition BatchGen_len :: "BatchGen \<Rightarrow> nat" where
  "BatchGen_len self = length (data self)"


subsection \<open>\<open>BatchGen.__iter__\<close>: collating one batch\<close>

text \<open>
  Tensors are nested lists: a matrix of token ids is a list of rows, a feature tensor a
  list (examples) of lists (positions) of vectors. The entries of the float tensors are
  reals; the label and feature values are stored as they are given. The fields are the
  entries of the yielded tuple in their order (\<open>texts\<close> and \<open>spans\<close> are the source's
  \<open>text\<close> and \<open>span\<close>).
\<close>

record batch =
  context_id :: "int list list"
  context_feature :: "real list list list option"
  context_tag :: "real list list list option"
  context_ent :: "real list list list option"
  context_mask :: "bool list list"
  question_id :: "int list list"
  question_mask :: "bool list list"
  texts :: "string list"
  spans :: "(nat \<times> nat) list list"
  answ :: "real list option"

text \<open>
  \<open>len(list(zip(*batch)))\<close>: \<open>zip\<close> stops at the shortest row; of no rows it is empty.
\<close>

definition zip_len :: "example list \<Rightarrow> nat" where
  "zip_len b = (case map n_fields b of [] \<Rightarrow> 0 | l # ls \<Rightarrow> fold min ls l)"

text \<open>\<open>max(len(x) for x in xs)\<close>; \<open>max\<close> of nothing raises \<open>ValueError\<close>.\<close>

definition max_len :: "'a list list \<Rightarrow> py_error + nat" where
  "max_len xs = (case map length xs of [] \<Rightarrow> Inl ValueError | l # ls \<Rightarrow> Inr (fold max ls l))"

text \<open>\<open>torch.LongTensor(doc)\<close>: the entries are 64-bit signed integers.\<close>

definition long_tensor :: "int list \<Rightarrow> py_error + int list" where
  "long_tensor doc =
     (if list_all (\<lambda>v. - (2 ^ 63) \<le> v \<and> v < 2 ^ 63) doc then Inr doc else Inl OverflowError)"

text \<open>\<open>t[i, :n] = v\<close> on a matrix: the slice and \<open>v\<close> must have the same length.\<close>

definition assign_prefix :: "int list list \<Rightarrow> nat \<Rightarrow> nat \<Rightarrow> int list \<Rightarrow> py_error + int list list" where
  "assign_prefix t i n v =
     (if length t \<le> i then Inl IndexError
      else if length v = min n (length (t ! i)) then Inr (t[i := v @ drop n (t ! i)])
      else Inl RuntimeError)"

text \<open>
  \<^verbatim>\<open>
  for i, doc in enumerate(docs):
      t[i, :len(doc)] = torch.LongTensor(doc)
  \<close>
\<close>

fun fill_ids :: "int list list \<Rightarrow> nat \<Rightarrow> int list list \<Rightarrow> py_error + int list list" where
  "fill_ids t i [] = Inr t"
| "fill_ids t i (doc # docs) =
     (case long_tensor doc of
        Inl e \<Rightarrow> Inl e
      | Inr v \<Rightarrow>
          (case assign_prefix t i (length doc) v of
             Inl e \<Rightarrow> Inl e
           | Inr t' \<Rightarrow> fill_ids t' (Suc i) docs))"

text \<open>
  \<open>t[i, j, :] = torch.Tensor(feature)\<close>: a vector of the tensor's depth is stored, a vector
  of length one is broadcast, any other length is a shape error.
\<close>

definition assign_vector ::
  "real list list list \<Rightarrow> nat \<Rightarrow> nat \<Rightarrow> real list \<Rightarrow> py_error + real list list list" where
  "assign_vector t i j v =
     (if length t \<le> i \<or> length (t ! i) \<le> j then Inl IndexError
      else if length v = length (t ! i ! j) then Inr (t[i := (t ! i)[j := v]])
      else if length v = 1 then Inr (t[i := (t ! i)[j := replicate (length (t ! i ! j)) (hd v)]])
      else Inl RuntimeError)"

text \<open>
  \<open>t[i, j, k] = v\<close> with \<open>k\<close> a Python integer: a negative \<open>k\<close> counts from the end, and
  an index outside \<open>-depth \<le> k < depth\<close> raises \<open>IndexError\<close>.
\<close>

definition assign_entry ::
  "real list list list \<Rightarrow> nat \<Rightarrow> nat \<Rightarrow> int \<Rightarrow> real \<Rightarrow> py_error + real list list list" where
  "assign_entry t i j k v =
     (if length t \<le> i \<or> length (t ! i) \<le> j then Inl IndexError
      else if k < - int (length (t ! i ! j)) \<or> int (length (t ! i ! j)) \<le> k then Inl IndexError
      else Inr (t[i := (t ! i)[j := (t ! i ! j)
                  [nat (if k < 0 then k + int (length (t ! i ! j)) else k) := v]]]))"

text \<open>
  \<^verbatim>\<open>
  for i, doc in enumerate(batch[2]):
      for j, feature in enumerate(doc):
          context_feature[i, j, :] = torch.Tensor(feature)
  \<close>
\<close>

fun fill_feature_doc ::
  "real list list list \<Rightarrow> nat \<Rightarrow> nat \<Rightarrow> real list list \<Rightarrow> py_error + real list list list" where
  "fill_feature_doc t i j [] = Inr t"
| "fill_feature_doc t i j (feature # doc) =
     (case assign_vector t i j feature of
        Inl e \<Rightarrow> Inl e
      | Inr t' \<Rightarrow> fill_feature_doc t' i (Suc j) doc)"

fun fill_features ::
  "real list list list \<Rightarrow> nat \<Rightarrow> real list list list \<Rightarrow> py_error + real list list list" where
  "fill_features t i [] = Inr t"
| "fill_features t i (doc # docs) =
     (case fill_feature_doc t i 0 doc of
        Inl e \<Rightarrow> Inl e
      | Inr t' \<Rightarrow> fill_features t' (Suc i) docs)"

text \<open>
  \<^verbatim>\<open>
  for i, doc in enumerate(batch[3]):
      for j, tag in enumerate(doc):
          context_tag[i, j, tag] = 1
  \<close>
\<close>

fun fill_onehot_doc ::
  "real list list list \<Rightarrow> nat \<Rightarrow> nat \<Rightarrow> int list \<Rightarrow> py_error + real list list list" where
  "fill_onehot_doc t i j [] = Inr t"
| "fill_onehot_doc t i j (tag # doc) =
     (case assign_entry t i j tag 1 of
        Inl e \<Rightarrow> Inl e
      | Inr t' \<Rightarrow> fill_onehot_doc t' i (Suc j) doc)"

fun fill_onehot ::
  "real list list list \<Rightarrow> nat \<Rightarrow> int list list \<Rightarrow> py_error + real list list list" where
  "fill_onehot t i [] = Inr t"
| "fill_onehot t i (doc # docs) =
     (case fill_onehot_doc t i 0 doc of
        Inl e \<Rightarrow> Inl e
      | Inr t' \<Rightarrow> fill_onehot t' (Suc i) docs)"

text \<open>\<open>torch.Tensor(a, b, c).fill_(0)\<close>\<close>

definition zeros :: "nat \<Rightarrow> nat \<Rightarrow> nat \<Rightarrow> real list list list" where
  "zeros a b c = replicate a (replicate b (replicate c 0))"

text \<open>\<open>len(batch[2][0][0])\<close>\<close>

definition first_feature_len :: "real list list list \<Rightarrow> py_error + nat" where
  "first_feature_len fs =
     (case fs of
        [] \<Rightarrow> Inl IndexError
      | doc # _ \<Rightarrow> (case doc of [] \<Rightarrow> Inl IndexError | feature # _ \<Rightarrow> Inr (length feature)))"

text \<open>
  A one-hot tensor whose depth is the class attribute \<open>pos_size\<close> or \<open>ner_size\<close>: \<open>torch.Tensor(.., .., None)\<close> is a
  \<open>TypeError\<close>.
\<close>

definition onehot_tensor ::
  "nat option \<Rightarrow> nat \<Rightarrow> nat \<Rightarrow> int list list \<Rightarrow> py_error + real list list list" where
  "onehot_tensor depth n context_len docs =
     (case depth of
        None \<Rightarrow> Inl TypeError
      | Some d \<Rightarrow> fill_onehot (zeros n context_len d) 0 docs)"

text \<open>The branch \<open>if not self.bert\<close> of \<open>__iter__\<close>: the feature, POS and NER tensors.\<close>

definition dense_tensors ::
  "BatchGen \<Rightarrow> example list \<Rightarrow> nat \<Rightarrow>
     py_error + (real list list list option \<times> real list list list option \<times>
                 real list list list option)" where
  "dense_tensors self b context_len =
     (case first_feature_len (map x2 b) of
        Inl e \<Rightarrow> Inl e
      | Inr feature_len \<Rightarrow>
     (case fill_features (zeros (length b) context_len feature_len) 0 (map x2 b) of
        Inl e \<Rightarrow> Inl e
      | Inr cf \<Rightarrow>
     (case onehot_tensor (pos_size self) (length b) context_len (map x3 b) of
        Inl e \<Rightarrow> Inl e
      | Inr ct \<Rightarrow>
     (case onehot_tensor (ner_size self) (length b) context_len (map x4 b) of
        Inl e \<Rightarrow> Inl e
      | Inr ce \<Rightarrow> Inr (Some cf, Some ct, Some ce)))))"

text \<open>\<open>pin_memory()\<close> returns a copy of the tensor in page-locked memory, with the same entries.\<close>

definition pin_memory :: "'a \<Rightarrow> 'a" where
  "pin_memory t = t"

text \<open>
  The body of the loop of \<open>__iter__\<close>: the tuple yielded for one batch \<open>b\<close> of
  \<open>self.data\<close>, or the exception raised while building it.
\<close>

definition iter_batch :: "BatchGen \<Rightarrow> example list \<Rightarrow> py_error + batch" where
  "iter_batch self b =
     (if zip_len b \<noteq> (if eval self then 8 else 9) then Inl AssertionError
      else
     (case max_len (map x1 b) of
        Inl e \<Rightarrow> Inl e
      | Inr context_len \<Rightarrow>
     (case fill_ids (replicate (length b) (replicate context_len (pad_token self))) 0 (map x1 b) of
        Inl e \<Rightarrow> Inl e
      | Inr cid \<Rightarrow>
     (case (if \<not> bert self then dense_tensors self b context_len
            else Inr (None, None, None)) of
        Inl e \<Rightarrow> Inl e
      | Inr (cf, ct, ce) \<Rightarrow>
     (case max_len (map x5 b) of
        Inl e \<Rightarrow> Inl e
      | Inr question_len \<Rightarrow>
     (case fill_ids (replicate (length b) (replicate question_len (pad_token self))) 0 (map x5 b) of
        Inl e \<Rightarrow> Inl e
      | Inr qid \<Rightarrow>
          Inr \<lparr>context_id = (if gpu self then pin_memory cid else cid),
               context_feature = (if gpu self \<and> \<not> bert self then pin_memory cf
                                  else if gpu self then None else cf),
               context_tag = (if gpu self \<and> \<not> bert self then pin_memory ct
                              else if gpu self then None else ct),
               context_ent = (if gpu self \<and> \<not> bert self then pin_memory ce
                              else if gpu self then None else ce),
               context_mask = (if gpu self then pin_memory else id)
                                (map (map (\<lambda>v. v = pad_token self)) cid),
               question_id = (if gpu self then pin_memory qid else qid),
               question_mask = (if gpu self then pin_memory else id)
                                 (map (map (\<lambda>v. v = pad_token self)) qid),
               texts = map x6 b,
               spans = map x7 b,
               answ = (if \<not> eval self then Some (map (\<lambda>x. the (x8 x)) b) else None)\<rparr>))))))"

text \<open>
  Iterating over the object: the outcome of every batch in the order of \<open>self.data\<close>. The
  generator is lazy, so a consumer sees the outcomes up to the first exception.
\<close>

definition BatchGen_iter :: "BatchGen \<Rightarrow> (py_error + batch) list" where
  "BatchGen_iter self = map (iter_batch self) (data self)"

section \<open>drqa/model.py: \<open>DocReaderModel\<close>\<close>

text \<open>
  Python floats are modelled by the reals they stand for, with one more value for the
  not-a-number that \<open>score\<close> produces on an empty development set; every comparison with
  \<open>NaN\<close> is false.
\<close>

datatype pyfloat = Fin real | NaN

fun f_gt :: "pyfloat \<Rightarrow> pyfloat \<Rightarrow> bool" where
  "f_gt (Fin a) (Fin b) = (b < a)"
| "f_gt _ _ = False"

fun f_sub :: "pyfloat \<Rightarrow> pyfloat \<Rightarrow> pyfloat" where
  "f_sub (Fin a) (Fin b) = Fin (a - b)"
| "f_sub _ _ = NaN"

fun fabs :: "pyfloat \<Rightarrow> pyfloat" where
  "fabs (Fin a) = Fin \<bar>a\<bar>"
| "fabs NaN = NaN"

text \<open>The dictionary \<open>opt\<close>, with the keys that the code under study reads.\<close>

record config =
  opt_cuda :: bool
  opt_bert :: bool
  opt_optimizer :: string
  opt_learning_rate :: real
  opt_momentum :: real
  opt_weight_decay :: real
  opt_grad_clipping :: real

text \<open>
  \<open>checkpoint['state_dict']\<close>: the network's and the optimizer's state dictionaries, the
  number of updates and the state of the loss meter. The types \<open>'n\<close>, \<open>'o\<close> and \<open>'l\<close> of
  the three states are those of the objects that the network module, the optimizer
  library and the loss meter define.
\<close>

record ('n, 'o, 'l) model_state =
  sd_network :: 'n
  sd_optimizer :: 'o
  sd_updates :: nat
  sd_loss :: 'l

text \<open>The dictionary \<open>params\<close> that \<open>save\<close> writes and \<open>torch.load\<close> returns.\<close>

record ('n, 'o, 'l) checkpoint =
  state_dict :: "('n, 'o, 'l) model_state"
  config :: config
  epoch :: int
  accuracy :: pyfloat
  best_eval :: pyfloat
  random_state :: rng
  torch_state :: rng
  torch_cuda_state :: rng

text \<open>A file holds a pickled checkpoint, or bytes that do not unpickle.\<close>

datatype 'c stored = Pickle 'c | Corrupt

datatype level = DEBUG | INFO | WARNING | ERROR

text \<open>
  The state of the process outside the model object: the files of the model directory,
  the log records written so far, and the three random generators. \<open>torch_cuda_random\<close>
  is \<open>None\<close> on a machine without CUDA, where the calls of \<open>torch.cuda\<close> raise.
\<close>

record ('n, 'o, 'l) world =
  files :: "string \<rightharpoonup> ('n, 'o, 'l) checkpoint stored"
  log :: "(level \<times> string) list"
  py_random :: rng
  torch_random :: rng
  torch_cuda_random :: "rng option"

text \<open>
  What the code under study calls and does not define: the network module
  \<open>RnnDocReader\<close> and the loss meter \<open>AverageMeter\<close> of this repository, and the tensor
  library. They are parameters of the model.
  \<^item> \<open>RnnDocReader opt\<close>: the state of a fresh network;
  \<^item> \<open>load_state_dict fresh saved\<close>: lines 45 to 49 of \<open>__init__\<close>, the saved entries that
    the fresh network knows, loaded into it (or the library's exception);
  \<^item> \<open>SGD\<close>, \<open>Adamax\<close>, \<open>optimizer_load\<close>, \<open>get_lrs\<close>, \<open>set_lrs\<close>: the optimizers, loading
    an optimizer state, and the learning rates of the parameter groups;
  \<^item> \<open>forward net ex\<close>: the scores of the network in evaluation mode, one per example;
  \<^item> \<open>train_step net optimizer ex target g\<close>: forward pass in training mode, loss,
    backward pass, gradient clipping and optimizer step; the result is the new network
    and optimizer states, \<open>loss.item()\<close> and the generator of \<open>torch\<close> after the call;
  \<^item> \<open>AverageMeter\<close>, \<open>meter_load\<close>, \<open>meter_update\<close>: a fresh loss meter, loading a state,
    and \<open>update\<close>;
  \<^item> \<open>save_fault params filename fs\<close>: \<open>None\<close> when \<open>torch.save\<close> succeeds, and otherwise
    the exception it raises with the files as the failed call leaves them
    (\<open>torch.save\<close> opens \<open>filename\<close> for writing before it serialises \<open>params\<close>, so a call
    that fails part-way leaves a truncated file);
  \<^item> \<open>randbelow\<close>: \<open>randbelow\<close> of the generator of the module \<open>random\<close>.
\<close>

record ('n, 'o, 'l) externals =
  RnnDocReader :: "config \<Rightarrow> 'n"
  load_state_dict :: "'n \<Rightarrow> 'n \<Rightarrow> py_error + 'n"
  SGD :: "'n \<Rightarrow> real \<Rightarrow> real \<Rightarrow> real \<Rightarrow> 'o"
  Adamax :: "'n \<Rightarrow> real \<Rightarrow> 'o"
  optimizer_load :: "'o \<Rightarrow> 'o \<Rightarrow> 'o"
  get_lrs :: "'o \<Rightarrow> real list"
  set_lrs :: "'o \<Rightarrow> real list \<Rightarrow> 'o"
  forward :: "'n \<Rightarrow> batch \<Rightarrow> real list"
  train_step :: "'n \<Rightarrow> 'o \<Rightarrow> batch \<Rightarrow> real list \<Rightarrow> rng \<Rightarrow> py_error + ('n \<times> 'o \<times> real \<times> rng)"
  AverageMeter :: 'l
  meter_load :: "'l \<Rightarrow> 'l \<Rightarrow> 'l"
  meter_update :: "'l \<Rightarrow> real \<Rightarrow> 'l"
  save_fault :: "('n, 'o, 'l) checkpoint \<Rightarrow> string \<Rightarrow>
                 (string \<rightharpoonup> ('n, 'o, 'l) checkpoint stored) \<Rightarrow>
                 (py_error \<times> (string \<rightharpoonup> ('n, 'o, 'l) checkpoint stored)) option"
  randbelow :: randbelow

text \<open>
  \<open>torch.save(params, filename)\<close>: the exception raised, if any, and the files after the
  call. A call that succeeds leaves the pickled \<open>params\<close> under \<open>filename\<close>.
\<close>

definition torch_save ::
  "('n, 'o, 'l) externals \<Rightarrow> ('n, 'o, 'l) checkpoint \<Rightarrow> string \<Rightarrow>
     (string \<rightharpoonup> ('n, 'o, 'l) checkpoint stored) \<Rightarrow>
     py_error option \<times> (string \<rightharpoonup> ('n, 'o, 'l) checkpoint stored)" where
  "torch_save E params filename fs =
     (case save_fault E params filename fs of
        None \<Rightarrow> (None, fs(filename \<mapsto> Pickle params))
      | Some (e, fs') \<Rightarrow> (Some e, fs'))"

text \<open>\<open>torch.load(filename)\<close>\<close>

definition torch_load ::
  "(string \<rightharpoonup> ('n, 'o, 'l) checkpoint stored) \<Rightarrow> string \<Rightarrow> py_error + ('n, 'o, 'l) checkpoint" where
  "torch_load fs filename =
     (case fs filename of
        None \<Rightarrow> Inl FileNotFoundError
      | Some Corrupt \<Rightarrow> Inl RuntimeError
      | Some (Pickle c) \<Rightarrow> Inr c)"

text \<open>
  The object \<open>DocReaderModel\<close>. \<open>training\<close> is the mode of the network, which
  \<open>network.train()\<close> and \<open>network.eval()\<close> set.
\<close>

datatype device = Cuda | Cpu

record ('n, 'o, 'l) DocReaderModel =
  opt :: config
  device :: device
  updates :: nat
  train_loss :: 'l
  network :: 'n
  training :: bool
  opt_state_dict :: "'o option"
  optimizer :: 'o

text \<open>\<open>build_optimizer\<close>: the optimizer for the options, with the saved state loaded if there is one.\<close>

definition build_optimizer ::
  "('n, 'o, 'l) externals \<Rightarrow> config \<Rightarrow> 'n \<Rightarrow> 'o option \<Rightarrow> py_error + 'o" where
  "build_optimizer E opt0 net saved =
     (case (if opt_optimizer opt0 = ''sgd''
            then Inr (SGD E net (opt_learning_rate opt0) (opt_momentum opt0) (opt_weight_decay opt0))
            else if opt_optimizer opt0 = ''adamax''
            then Inr (Adamax E net (opt_weight_decay opt0))
            else Inl RuntimeError) of
        Inl e \<Rightarrow> Inl e
      | Inr fresh \<Rightarrow>
          (case saved of None \<Rightarrow> Inr fresh | Some s \<Rightarrow> Inr (optimizer_load E fresh s)))"

text \<open>
  \<open>DocReaderModel(opt, embedding, state_dict)\<close>; the embedding is part of \<open>RnnDocReader\<close>.
  \<open>cuda_ok\<close> says that CUDA is available: \<open>torch.cuda.current_device()\<close> raises when it is
  not.
\<close>

definition DocReaderModel_init ::
  "('n, 'o, 'l) externals \<Rightarrow> bool \<Rightarrow> config \<Rightarrow> ('n, 'o, 'l) model_state option \<Rightarrow>
     py_error + ('n, 'o, 'l) DocReaderModel" where
  "DocReaderModel_init E cuda_ok opt0 sd =
     (if opt_cuda opt0 \<and> \<not> cuda_ok then Inl RuntimeError
      else
      case (case sd of
              None \<Rightarrow> Inr (RnnDocReader E opt0)
            | Some s \<Rightarrow> load_state_dict E (RnnDocReader E opt0) (sd_network s)) of
        Inl e \<Rightarrow> Inl e
      | Inr net \<Rightarrow>
          (case build_optimizer E opt0 net (map_option sd_optimizer sd) of
             Inl e \<Rightarrow> Inl e
           | Inr optim \<Rightarrow>
               Inr \<lparr>opt = opt0,
                    device = (if opt_cuda opt0 then Cuda else Cpu),
                    updates = (case sd of None \<Rightarrow> 0 | Some s \<Rightarrow> sd_updates s),
                    train_loss = (case sd of None \<Rightarrow> AverageMeter E
                                  | Some s \<Rightarrow> meter_load E (AverageMeter E) (sd_loss s)),
                    network = net,
                    training = True,
                    opt_state_dict = map_option sd_optimizer sd,
                    optimizer = optim\<rparr>))"

text \<open>
  \<open>update(ex)\<close>: one training step on the batch. \<open>ex[9]\<close> is \<open>None\<close> in an evaluation
  batch, and \<open>None.to(..)\<close> is an \<open>AttributeError\<close>. The result is the exception, if any,
  the model and the generator of \<open>torch\<close> after the call.
\<close>

definition update ::
  "('n, 'o, 'l) externals \<Rightarrow> ('n, 'o, 'l) DocReaderModel \<Rightarrow> batch \<Rightarrow> rng \<Rightarrow>
     (py_error + unit) \<times> ('n, 'o, 'l) DocReaderModel \<times> rng" where
  "update E self ex g =
     (let self1 = self\<lparr>training := True\<rparr> in
      case answ ex of
        None \<Rightarrow> (Inl AttributeError, self1, g)
      | Some target \<Rightarrow>
          (case train_step E (network self1) (optimizer self1) ex target g of
             Inl e \<Rightarrow> (Inl e, self1, g)
           | Inr (net, optim, loss, g') \<Rightarrow>
               (Inr (),
                self1\<lparr>train_loss := meter_update E (train_loss self1) loss,
                       network := net, optimizer := optim,
                       updates := updates self1 + 1\<rparr>,
                g')))"

text \<open>
  The names that are bound where the body of \<open>predict\<close> looks a name up: the local names
  of \<open>predict\<close>, and the names that the top level of \<open>drqa/model.py\<close> binds (its imports,
  \<open>logger\<close> and the class). Python looks in the builtins last; none of them is called
  \<open>opt\<close>.
\<close>

definition predict_locals :: "string list" where
  "predict_locals = [''self'', ''ex'', ''not_none'', ''inputs'', ''scores'', ''predictions'']"

definition model_py_globals :: "string list" where
  "model_py_globals =
     [''random'', ''torch'', ''optim'', ''F'', ''np'', ''logging'', ''Variable'',
      ''AverageMeter'', ''RnnDocReader'', ''logger'', ''DocReaderModel'']"

definition lookup_in_predict :: "string \<Rightarrow> py_error + unit" where
  "lookup_in_predict name =
     (if name \<in> set (predict_locals @ model_py_globals) then Inr ()
      else Inl (NameError name))"

text \<open>\<open>round(x)\<close> on a float: to the nearest integer, a tie to the even one.\<close>

definition py_round :: "real \<Rightarrow> int" where
  "py_round x =
     (if x - of_int \<lfloor>x\<rfloor> < 1 / 2 then \<lfloor>x\<rfloor>
      else if 1 / 2 < x - of_int \<lfloor>x\<rfloor> then \<lfloor>x\<rfloor> + 1
      else if even \<lfloor>x\<rfloor> then \<lfloor>x\<rfloor> else \<lfloor>x\<rfloor> + 1)"

text \<open>
  \<open>predict(ex)\<close>. The network is put in evaluation mode; then the comprehension
  \<^verbatim>\<open>[not_none(e, opt['cuda']) for e in ex[:7]]\<close>
  evaluates the name \<open>opt\<close> for the first of the seven entries of \<open>ex[:7]\<close>. The source
  writes \<open>opt\<close>, not \<open>self.opt\<close>. Were the name bound, the scores of the network would be
  rounded one by one.
\<close>

definition predict ::
  "('n, 'o, 'l) externals \<Rightarrow> ('n, 'o, 'l) DocReaderModel \<Rightarrow> batch \<Rightarrow>
     (py_error + int list) \<times> ('n, 'o, 'l) DocReaderModel" where
  "predict E self ex =
     (let self1 = self\<lparr>training := False\<rparr> in
      case lookup_in_predict ''opt'' of
        Inl e \<Rightarrow> (Inl e, self1)
      | Inr _ \<Rightarrow> (Inr (map py_round (forward E (network self1) ex)), self1))"

text \<open>
  Lines 122 to 137 of \<open>save\<close>, before the \<open>try\<close>: \<open>scores\<close> is unpacked into two names
  (any other length is a \<open>ValueError\<close>), and the dictionary \<open>params\<close> is built, which
  reads the three generators; \<open>torch.cuda.get_rng_state()\<close> raises without CUDA.
\<close>

definition build_params ::
  "('n, 'o, 'l) DocReaderModel \<Rightarrow> int \<Rightarrow> pyfloat list \<Rightarrow> ('n, 'o, 'l) world \<Rightarrow>
     py_error + ('n, 'o, 'l) checkpoint" where
  "build_params self epoch0 scores w =
     (case scores of
        [accuracy0, best_eval0] \<Rightarrow>
          (case torch_cuda_random w of
             None \<Rightarrow> Inl RuntimeError
           | Some cuda_state \<Rightarrow>
               Inr \<lparr>state_dict = \<lparr>sd_network = network self, sd_optimizer = optimizer self,
                                   sd_updates = updates self, sd_loss = train_loss self\<rparr>,
                    config = opt self,
                    epoch = epoch0,
                    accuracy = accuracy0,
                    best_eval = best_eval0,
                    random_state = py_random w,
                    torch_state = torch_random w,
                    torch_cuda_state = cuda_state\<rparr>)
      | _ \<Rightarrow> Inl ValueError)"

text \<open>
  \<open>save(filename, epoch, scores)\<close>: \<open>params\<close> is built, and then the \<open>try\<close> statement runs
  \<open>torch.save\<close> and logs the info record; \<open>except BaseException\<close> replaces any exception
  of \<open>torch.save\<close> by a warning record.
\<close>

definition save ::
  "('n, 'o, 'l) externals \<Rightarrow> ('n, 'o, 'l) DocReaderModel \<Rightarrow> string \<Rightarrow> int \<Rightarrow> pyfloat list \<Rightarrow>
     ('n, 'o, 'l) world \<Rightarrow> (py_error + unit) \<times> ('n, 'o, 'l) world" where
  "save E self filename epoch0 scores w =
     (case build_params self epoch0 scores w of
        Inl e \<Rightarrow> (Inl e, w)
      | Inr params \<Rightarrow>
          (case torch_save E params filename (files w) of
             (None, fs) \<Rightarrow>
               (Inr (), w\<lparr>files := fs, log := log w @ [(INFO, ''model saved to {}'')]\<rparr>)
           | (Some e, fs) \<Rightarrow>
               (Inr (), w\<lparr>files := fs,
                          log := log w @ [(WARNING, ''[ WARN: Saving failed... continuing anyway. ]'')]\<rparr>)))"

section \<open>train.py: \<open>score\<close>, \<open>lr_decay\<close> and \<open>main\<close>\<close>

text \<open>
  \<open>score(pred, truth)\<close>: the share of equal entries. On empty lists the numpy division
  \<open>0.0 / 0\<close> gives not-a-number (with a warning, not an exception).
\<close>

definition score :: "int list \<Rightarrow> int list \<Rightarrow> py_error + pyfloat" where
  "score pred truth =
     (if length pred \<noteq> length truth then Inl AssertionError
      else if truth = [] then Inr NaN
      else Inr (Fin (real (length (filter (\<lambda>(p, t). p = t) (zip pred truth)))
                     / real (length truth))))"

text \<open>
  \<^verbatim>\<open>
  for param_group in optimizer.param_groups:
      param_group['lr'] *= lr_decay
  \<close>
\<close>

definition lr_decay :: "('n, 'o, 'l) externals \<Rightarrow> 'o \<Rightarrow> real \<Rightarrow> 'o" where
  "lr_decay E optim k = set_lrs E optim (map (\<lambda>lr. lr * k) (get_lrs E optim))"

text \<open>The command line, after \<open>setup\<close>: the arguments that \<open>main\<close> reads.\<close>

record args =
  args_resume :: string
  args_resume_options :: bool
  args_reduce_lr :: real
  args_cuda :: bool
  args_batch_size :: int
  args_epochs :: int
  args_save_last_only :: bool
  args_save_dawn_logs :: bool
  args_log_per_updates :: int
  args_model_dir :: string

text \<open>
  \<open>str(n)\<close> for an integer, and \<open>os.path.join\<close> of a directory and a file name. In the
  log records the format strings stand for the formatted messages (tabs written as
  blanks).
\<close>

function show_nat :: "nat \<Rightarrow> string" where
  "show_nat n =
     (if n < 10 then [char_of (48 + n)] else show_nat (n div 10) @ [char_of (48 + n mod 10)])"
  by pat_completeness auto
termination
  by (relation "measure (\<lambda>n. n)") auto

declare show_nat.simps [simp del]

definition show_int :: "int \<Rightarrow> string" where
  "show_int i = (if i < 0 then CHR ''-'' # show_nat (nat (- i)) else show_nat (nat i))"

definition path_join :: "string \<Rightarrow> string \<Rightarrow> string" where
  "path_join dir name = dir @ ''/'' @ name"

text \<open>\<open>copyfile(src, dst)\<close>\<close>

definition copyfile :: "('k \<rightharpoonup> 'v) \<Rightarrow> 'k \<Rightarrow> 'k \<Rightarrow> py_error + ('k \<rightharpoonup> 'v)" where
  "copyfile fs src dst =
     (case fs src of None \<Rightarrow> Inl FileNotFoundError | Some c \<Rightarrow> Inr (fs(dst \<mapsto> c)))"

text \<open>
  The evaluation loop, over the outcomes of the generator:
  \<^verbatim>\<open>
  predictions = []
  for i, batch in enumerate(batches):
      predictions.extend(model.predict(batch))
      log.debug('> evaluating [{}/{}]'.format(i, len(batches)))
  \<close>
\<close>

fun predict_all ::
  "('n, 'o, 'l) externals \<Rightarrow> ('n, 'o, 'l) DocReaderModel \<Rightarrow> (py_error + batch) list \<Rightarrow>
     int list \<Rightarrow> ('n, 'o, 'l) world \<Rightarrow>
     (py_error + int list) \<times> ('n, 'o, 'l) DocReaderModel \<times> ('n, 'o, 'l) world" where
  "predict_all E model [] predictions w = (Inr predictions, model, w)"
| "predict_all E model (Inl e # batches) predictions w = (Inl e, model, w)"
| "predict_all E model (Inr ex # batches) predictions w =
     (case predict E model ex of
        (Inl e, model') \<Rightarrow> (Inl e, model', w)
      | (Inr p, model') \<Rightarrow>
          predict_all E model' batches (predictions @ p)
            (w\<lparr>log := log w @ [(DEBUG, ''> evaluating [{}/{}]'')]\<rparr>))"

text \<open>
  Building the evaluation generator over \<open>dev\<close>, running the evaluation loop and scoring:
  lines 46 to 51 and 77 to 82 of \<open>main\<close>. On resume the generator is built without the
  argument \<open>bert\<close>, so \<open>bert0\<close> is \<open>False\<close> there.
\<close>

definition evaluate ::
  "('n, 'o, 'l) externals \<Rightarrow> nat option \<times> nat option \<Rightarrow> int \<Rightarrow> args \<Rightarrow> bool \<Rightarrow>
     ('n, 'o, 'l) DocReaderModel \<Rightarrow> example list \<Rightarrow> int list \<Rightarrow> ('n, 'o, 'l) world \<Rightarrow>
     (py_error + pyfloat) \<times> ('n, 'o, 'l) DocReaderModel \<times> ('n, 'o, 'l) world" where
  "evaluate E cls bert_pad a bert0 model dev dev_y w =
     (case BatchGen_init (randbelow E) cls bert_pad dev (args_batch_size a) (args_cuda a) True bert0 (py_random w) of
        Inl e \<Rightarrow> (Inl e, model, w)
      | Inr (batches, g) \<Rightarrow>
          (case predict_all E model (BatchGen_iter batches) [] (w\<lparr>py_random := g\<rparr>) of
             (Inl e, model', w') \<Rightarrow> (Inl e, model', w')
           | (Inr predictions, model', w') \<Rightarrow>
               (case score predictions dev_y of
                  Inl e \<Rightarrow> (Inl e, model', w')
                | Inr acc \<Rightarrow> (Inr acc, model', w'))))"

text \<open>
  The training loop of one epoch:
  \<^verbatim>\<open>
  for i, batch in enumerate(batches):
      model.update(batch)
      if i % args.log_per_updates == 0:
          log.info('> epoch [{0:2}] updates[{1:6}] train loss[{2:.5f}] remaining[{3}]'...)
  \<close>
\<close>

fun update_all ::
  "('n, 'o, 'l) externals \<Rightarrow> args \<Rightarrow> ('n, 'o, 'l) DocReaderModel \<Rightarrow> nat \<Rightarrow>
     (py_error + batch) list \<Rightarrow> ('n, 'o, 'l) world \<Rightarrow>
     (py_error + unit) \<times> ('n, 'o, 'l) DocReaderModel \<times> ('n, 'o, 'l) world" where
  "update_all E a model i [] w = (Inr (), model, w)"
| "update_all E a model i (Inl e # batches) w = (Inl e, model, w)"
| "update_all E a model i (Inr ex # batches) w =
     (case update E model ex (torch_random w) of
        (Inl e, model', g) \<Rightarrow> (Inl e, model', w\<lparr>torch_random := g\<rparr>)
      | (Inr _, model', g) \<Rightarrow>
          (if args_log_per_updates a = 0
           then (Inl ZeroDivisionError, model', w\<lparr>torch_random := g\<rparr>)
           else update_all E a model' (Suc i) batches
                  (if int i mod args_log_per_updates a = 0
                   then w\<lparr>torch_random := g,
                          log := log w @ [(INFO, ''> epoch [{0:2}] updates[{1:6}] train loss[{2:.5f}] remaining[{3}]'')]\<rparr>
                   else w\<lparr>torch_random := g\<rparr>)))"


text \<open>
  The step \<open># save\<close> of an epoch (lines 88 to 96). \<open>is_last\<close> says that the epoch is
  \<open>epoch_0 + args.epochs - 1\<close>.
\<close>

definition save_step ::
  "('n, 'o, 'l) externals \<Rightarrow> args \<Rightarrow> ('n, 'o, 'l) DocReaderModel \<Rightarrow> int \<Rightarrow> bool \<Rightarrow>
     pyfloat \<Rightarrow> pyfloat \<Rightarrow> ('n, 'o, 'l) world \<Rightarrow> (py_error + pyfloat) \<times> ('n, 'o, 'l) world" where
  "save_step E a model epoch0 is_last acc best_val_score w =
     (if \<not> args_save_last_only a \<or> is_last
      then
        (let model_file = path_join (args_model_dir a)
                            (''checkpoint_epoch_'' @ show_int epoch0 @ ''.pt'')
         in case save E model model_file epoch0 [acc, best_val_score] w of
              (Inl e, w') \<Rightarrow> (Inl e, w')
            | (Inr _, w') \<Rightarrow>
                (if f_gt acc best_val_score
                 then (case copyfile (files w') model_file
                              (path_join (args_model_dir a) ''best_model.pt'') of
                         Inl e \<Rightarrow> (Inl e, w')
                       | Inr fs \<Rightarrow>
                           (Inr acc, w'\<lparr>files := fs,
                                       log := log w' @ [(INFO, ''[new best model saved.]'')]\<rparr>))
                 else (Inr best_val_score, w')))
      else (Inr best_val_score, w))"

text \<open>
  The step \<open># train\<close> of an epoch (lines 67 to 74): a new generator over \<open>train\<close> is
  built, which shuffles from the current state of \<open>random\<close>, and every batch of it is
  given to \<open>model.update\<close>.
\<close>

definition train_pass ::
  "('n, 'o, 'l) externals \<Rightarrow> nat option \<times> nat option \<Rightarrow> int \<Rightarrow> args \<Rightarrow> config \<Rightarrow>
     example list \<Rightarrow> ('n, 'o, 'l) DocReaderModel \<Rightarrow> ('n, 'o, 'l) world \<Rightarrow>
     (py_error + unit) \<times> ('n, 'o, 'l) DocReaderModel \<times> ('n, 'o, 'l) world" where
  "train_pass E cls bert_pad a opt0 train model w =
     (case BatchGen_init (randbelow E) cls bert_pad train (args_batch_size a) (args_cuda a) False
             (opt_bert opt0) (py_random w) of
        Inl e \<Rightarrow> (Inl e, model, w)
      | Inr (batches, g) \<Rightarrow>
          update_all E a model 0 (BatchGen_iter batches) (w\<lparr>py_random := g\<rparr>))"

text \<open>
  One pass of the loop \<open>for epoch in range(epoch_0, epoch_0 + args.epochs)\<close>: train,
  evaluate, save. The result is the model and \<open>best_val_score\<close> after the epoch, or the
  exception that ends the program.
\<close>

definition run_epoch ::
  "('n, 'o, 'l) externals \<Rightarrow> nat option \<times> nat option \<Rightarrow> int \<Rightarrow> args \<Rightarrow> config \<Rightarrow>
     example list \<Rightarrow> example list \<Rightarrow> int list \<Rightarrow> int \<Rightarrow> bool \<Rightarrow>
     ('n, 'o, 'l) DocReaderModel \<Rightarrow> pyfloat \<Rightarrow> ('n, 'o, 'l) world \<Rightarrow>
     (py_error + (('n, 'o, 'l) DocReaderModel \<times> pyfloat)) \<times> ('n, 'o, 'l) world" where
  "run_epoch E cls bert_pad a opt0 train dev dev_y epoch0 is_last model best_val_score w =
     (case train_pass E cls bert_pad a opt0 train model
             (w\<lparr>log := log w @ [(WARNING, ''Epoch {}'')]\<rparr>) of
        (Inl e, model1, w2) \<Rightarrow> (Inl e, w2)
      | (Inr _, model1, w2) \<Rightarrow>
     (case evaluate E cls bert_pad a (opt_bert opt0) model1 dev dev_y
             (w2\<lparr>log := log w2 @ [(DEBUG, [CHR 0x0A])]\<rparr>) of
        (Inl e, model2, w3) \<Rightarrow> (Inl e, w3)
      | (Inr acc, model2, w3) \<Rightarrow>
     (let w4 = w3\<lparr>log := log w3 @ [(WARNING, ''dev accuracy {}'')] @
                     (if args_save_dawn_logs a then [(WARNING, ''dawn_entry: {} {} {}'')] else [])\<rparr>
      in case save_step E a model2 epoch0 is_last acc best_val_score w4 of
           (Inl e, w5) \<Rightarrow> (Inl e, w5)
         | (Inr best, w5) \<Rightarrow> (Inr (model2, best), w5))))"

text \<open>The epochs \<open>epoch0, epoch0 + 1, ..\<close>, \<open>n\<close> of them, the last one being \<open>final\<close>.\<close>

fun run_epochs ::
  "('n, 'o, 'l) externals \<Rightarrow> nat option \<times> nat option \<Rightarrow> int \<Rightarrow> args \<Rightarrow> config \<Rightarrow>
     example list \<Rightarrow> example list \<Rightarrow> int list \<Rightarrow> int \<Rightarrow> nat \<Rightarrow> int \<Rightarrow>
     ('n, 'o, 'l) DocReaderModel \<Rightarrow> pyfloat \<Rightarrow> ('n, 'o, 'l) world \<Rightarrow>
     (py_error + pyfloat) \<times> ('n, 'o, 'l) world" where
  "run_epochs E cls bert_pad a opt0 train dev dev_y final 0 epoch0 model best_val_score w =
     (Inr best_val_score, w)"
| "run_epochs E cls bert_pad a opt0 train dev dev_y final (Suc n) epoch0 model best_val_score w =
     (case run_epoch E cls bert_pad a opt0 train dev dev_y epoch0 (epoch0 = final)
             model best_val_score w of
        (Inl e, w') \<Rightarrow> (Inl e, w')
      | (Inr (model', best), w') \<Rightarrow>
          run_epochs E cls bert_pad a opt0 train dev dev_y final n (epoch0 + 1) model' best w')"

text \<open>
  The branch \<open>if args.resume\<close> of \<open>main\<close> (lines 31 to 57): the restored model, \<open>epoch_0\<close>
  and \<open>best_val_score\<close>, or the exception that ends the program; \<open>exit(1)\<close> is
  \<open>SystemExit 1\<close>.
\<close>

definition resume ::
  "('n, 'o, 'l) externals \<Rightarrow> nat option \<times> nat option \<Rightarrow> int \<Rightarrow> args \<Rightarrow> config \<Rightarrow>
     example list \<Rightarrow> int list \<Rightarrow> ('n, 'o, 'l) world \<Rightarrow>
     (py_error + (('n, 'o, 'l) DocReaderModel \<times> config \<times> int \<times> pyfloat)) \<times> ('n, 'o, 'l) world" where
  "resume E cls bert_pad a opt0 dev dev_y w =
     (let w1 = w\<lparr>log := log w @ [(INFO, ''[loading previous model...]'')]\<rparr> in
      case torch_load (files w1) (path_join (args_model_dir a) (args_resume a)) of
        Inl e \<Rightarrow> (Inl e, w1)
      | Inr ck \<Rightarrow>
     (let opt1 = (if args_resume_options a then config ck else opt0) in
      case DocReaderModel_init E (torch_cuda_random w1 \<noteq> None) opt1 (Some (state_dict ck)) of
        Inl e \<Rightarrow> (Inl e, w1)
      | Inr model \<Rightarrow>
     (let w2 = w1\<lparr>py_random := random_state ck, torch_random := torch_state ck\<rparr> in
      if args_cuda a \<and> torch_cuda_random w2 = None then (Inl RuntimeError, w2)
      else
     (let w3 = (if args_cuda a then w2\<lparr>torch_cuda_random := Some (torch_cuda_state ck)\<rparr> else w2);
          model1 = (if args_reduce_lr a \<noteq> 0
                    then model\<lparr>optimizer := lr_decay E (optimizer model) (args_reduce_lr a)\<rparr>
                    else model);
          w4 = (if args_reduce_lr a \<noteq> 0
                then w3\<lparr>log := log w3 @ [(INFO, ''[learning rate reduced by {}]'')]\<rparr> else w3)
      in case evaluate E cls bert_pad a False model1 dev dev_y w4 of
           (Inl e, model2, w5) \<Rightarrow> (Inl e, w5)
         | (Inr acc, model2, w5) \<Rightarrow>
             (let w6 = w5\<lparr>log := log w5 @ [(INFO, ''[dev accuracy {}]'')]\<rparr> in
              if f_gt (fabs (f_sub acc (accuracy ck))) (Fin (1 / 1000))
              then (Inl (SystemExit 1),
                    w6\<lparr>log := log w6 @
                      [(INFO, ''Inconsistent: recorded accuracy''),
                       (ERROR, ''Error loading model: current code is inconsistent with code used to train the previous model.'')]\<rparr>)
              else (Inr (model2, opt1, epoch ck + 1, best_eval ck), w6))))))"

text \<open>
  \<open>main\<close>, from the line after \<open>load_data\<close>: \<open>opt0\<close>, \<open>train\<close>, \<open>dev\<close> and \<open>dev_y\<close> are what
  \<open>load_data\<close> returned, \<open>cls\<close> the class attributes of \<open>BatchGen\<close> it set. The result is
  the returned \<open>best_val_score\<close>, or the exception that ends the program.
\<close>

definition main ::
  "('n, 'o, 'l) externals \<Rightarrow> nat option \<times> nat option \<Rightarrow> int \<Rightarrow> args \<Rightarrow> config \<Rightarrow>
     example list \<Rightarrow> example list \<Rightarrow> int list \<Rightarrow> ('n, 'o, 'l) world \<Rightarrow>
     (py_error + pyfloat) \<times> ('n, 'o, 'l) world" where
  "main E cls bert_pad a opt0 train dev dev_y w =
     (let w0 = w\<lparr>log := log w @ [(INFO, ''[Data loaded.]'')] @
                    (if args_save_dawn_logs a
                     then [(INFO, ''dawn_entry: epoch accuracy hours'')] else [])\<rparr>
      in case (if args_resume a \<noteq> []
               then resume E cls bert_pad a opt0 dev dev_y w0
               else (case DocReaderModel_init E (torch_cuda_random w0 \<noteq> None) opt0 None of
                       Inl e \<Rightarrow> (Inl e, w0)
                     | Inr model \<Rightarrow> (Inr (model, opt0, 1, Fin 0), w0))) of
           (Inl e, w1) \<Rightarrow> (Inl e, w1)
         | (Inr (model, opt1, epoch_0, best_val_score), w1) \<Rightarrow>
             run_epochs E cls bert_pad a opt1 train dev dev_y (epoch_0 + args_epochs a - 1)
               (nat (args_epochs a)) epoch_0 model best_val_score w1)"

section \<open>Sample data\<close>

text \<open>Two development rows (no label) and two training rows, used to run the definitions.\<close>

definition dev_a :: example where
  "dev_a = \<lparr>x0 = ''a'', x1 = [11, 12, 13], x2 = [[1, 0], [0, 1], [1, 1]], x3 = [0, 2, 1],
            x4 = [1, 0, 0], x5 = [21, 22], x6 = ''the cat sat'', x7 = [(0, 3), (4, 7), (8, 11)],
            x8 = None\<rparr>"

definition dev_b :: example where
  "dev_b = \<lparr>x0 = ''b'', x1 = [14], x2 = [[0, 0]], x3 = [1], x4 = [0], x5 = [23, 24, 25],
            x6 = ''yes'', x7 = [(0, 3)], x8 = None\<rparr>"

definition train_a :: example where
  "train_a = dev_a\<lparr>x8 := Some 1\<rparr>"

definition train_b :: example where
  "train_b = dev_b\<lparr>x8 := Some 0\<rparr>"

text \<open>The generator over the two development rows, and the batch it yields.\<close>

definition dev_gen :: BatchGen where
  "dev_gen = \<lparr>batch_size = 2, eval = True, gpu = False, bert = False, pad_token = 0,
              data = [[dev_b, dev_a]], pos_size = Some 3, ner_size = Some 2\<rparr>"

definition dev_batch :: batch where
  "dev_batch =
     \<lparr>context_id = [[14, 0, 0], [11, 12, 13]],
      context_feature = Some [[[0, 0], [0, 0], [0, 0]], [[1, 0], [0, 1], [1, 1]]],
      context_tag = Some [[[0, 1, 0], [0, 0, 0], [0, 0, 0]], [[1, 0, 0], [0, 0, 1], [0, 1, 0]]],
      context_ent = Some [[[1, 0], [0, 0], [0, 0]], [[0, 1], [1, 0], [1, 0]]],
      context_mask = [[False, True, True], [False, False, False]],
      question_id = [[23, 24, 25], [21, 22, 0]],
      question_mask = [[False, False, False], [False, False, True]],
      texts = [''yes'', ''the cat sat''],
      spans = [[(0, 3)], [(0, 3), (4, 7), (8, 11)]], answ = None\<rparr>"

text \<open>The generator over the two training rows, and the batch it yields.\<close>

definition train_gen :: BatchGen where
  "train_gen = \<lparr>batch_size = 2, eval = False, gpu = False, bert = False, pad_token = 0,
                data = [[train_b, train_a]], pos_size = Some 3, ner_size = Some 2\<rparr>"

definition train_batch :: batch where
  "train_batch = dev_batch\<lparr>answ := Some [0, 1]\<rparr>"

text \<open>
  The generators over the two training rows with batch size 1, in the two orders of the
  batches.
\<close>

definition train_gen_ab :: BatchGen where
  "train_gen_ab = \<lparr>batch_size = 1, eval = False, gpu = False, bert = False, pad_token = 0,
                   data = [[train_a], [train_b]], pos_size = Some 3, ner_size = Some 2\<rparr>"

definition train_gen_ba :: BatchGen where
  "train_gen_ba = train_gen_ab\<lparr>data := [[train_b], [train_a]]\<rparr>"

text \<open>A \<open>randbelow\<close> that takes one raw word and reduces it modulo \<open>n\<close>.\<close>

definition word_randbelow :: randbelow where
  "word_randbelow n g = (g 0 mod n, (\<lambda>i. g (Suc i)))"

text \<open>
  A stand-in for the network, the optimizer and the loss meter, each with a counter for
  its state: the network scores every example 1, a training step counts up, and
  \<open>torch.save\<close> succeeds. \<open>ext_disk_full\<close> differs in \<open>torch.save\<close> only, which raises and
  writes nothing; with \<open>ext_truncating\<close> it raises after it has opened the file, and
  leaves bytes that do not unpickle.
\<close>

definition ext0 :: "(nat, nat, nat) externals" where
  "ext0 = \<lparr>RnnDocReader = (\<lambda>_. 0),
           load_state_dict = (\<lambda>fresh saved. Inr saved),
           SGD = (\<lambda>_ _ _ _. 0),
           Adamax = (\<lambda>_ _. 0),
           optimizer_load = (\<lambda>fresh saved. saved),
           get_lrs = (\<lambda>_. [1]),
           set_lrs = (\<lambda>optim _. optim),
           forward = (\<lambda>_ ex. map (\<lambda>_. 1) (context_id ex)),
           train_step = (\<lambda>net optim _ _ g. Inr (Suc net, Suc optim, 0, g)),
           AverageMeter = 0,
           meter_load = (\<lambda>_ saved. saved),
           meter_update = (\<lambda>meter _. Suc meter),
           save_fault = (\<lambda>_ _ _. None),
           randbelow = word_randbelow\<rparr>"

definition ext_disk_full :: "(nat, nat, nat) externals" where
  "ext_disk_full = ext0\<lparr>save_fault := (\<lambda>_ _ fs. Some (OSError, fs))\<rparr>"

definition ext_truncating :: "(nat, nat, nat) externals" where
  "ext_truncating = ext0\<lparr>save_fault := (\<lambda>_ filename fs. Some (OSError, fs(filename \<mapsto> Corrupt)))\<rparr>"

definition opt_s :: config where
  "opt_s = \<lparr>opt_cuda = False, opt_bert = False, opt_optimizer = ''adamax'',
            opt_learning_rate = 1 / 10, opt_momentum = 0, opt_weight_decay = 0,
            opt_grad_clipping = 10\<rparr>"

definition model_s :: "(nat, nat, nat) DocReaderModel" where
  "model_s = \<lparr>opt = opt_s, device = Cpu, updates = 4, train_loss = 4, network = 4,
              training = True, opt_state_dict = None, optimizer = 4\<rparr>"

text \<open>
  A machine with CUDA and one without, with an empty model directory, and the checkpoint
  that \<open>model_s\<close> saves there for epoch 1 with accuracy 1 and best score 0.
\<close>

definition world_gpu :: "(nat, nat, nat) world" where
  "world_gpu = \<lparr>files = Map.empty, log = [], py_random = (\<lambda>i. i), torch_random = (\<lambda>i. 2 * i),
                torch_cuda_random = Some (\<lambda>i. 3 * i)\<rparr>"

definition world_cpu :: "(nat, nat, nat) world" where
  "world_cpu = world_gpu\<lparr>torch_cuda_random := None\<rparr>"

definition ck_saved :: "(nat, nat, nat) checkpoint" where
  "ck_saved = \<lparr>state_dict = \<lparr>sd_network = 4, sd_optimizer = 4, sd_updates = 4, sd_loss = 4\<rparr>,
               config = opt_s, epoch = 1, accuracy = Fin 1, best_eval = Fin 0,
               random_state = (\<lambda>i. i), torch_state = (\<lambda>i. 2 * i),
               torch_cuda_state = (\<lambda>i. 3 * i)\<rparr>"

text \<open>
  A checkpoint of epoch 2 with recorded accuracy 1, stored as \<open>models/best_model.pt\<close>, and
  the arguments of a run that resumes from it; \<open>args_fresh\<close> starts from scratch.
\<close>

definition ck_s :: "(nat, nat, nat) checkpoint" where
  "ck_s = \<lparr>state_dict = \<lparr>sd_network = 4, sd_optimizer = 4, sd_updates = 4, sd_loss = 4\<rparr>,
           config = opt_s, epoch = 2, accuracy = Fin 1, best_eval = Fin 1,
           random_state = (\<lambda>i. i), torch_state = (\<lambda>i. 2 * i), torch_cuda_state = (\<lambda>i. 3 * i)\<rparr>"

definition world_resume :: "(nat, nat, nat) world" where
  "world_resume = world_gpu\<lparr>files := [''models/best_model.pt'' \<mapsto> Pickle ck_s]\<rparr>"

definition args_fresh :: args where
  "args_fresh = \<lparr>args_resume = '''', args_resume_options = False, args_reduce_lr = 0,
                 args_cuda = False, args_batch_size = 2, args_epochs = 1,
                 args_save_last_only = False, args_save_dawn_logs = False,
                 args_log_per_updates = 3, args_model_dir = ''models''\<rparr>"

definition args_resumed :: args where
  "args_resumed = args_fresh\<lparr>args_resume := ''best_model.pt''\<rparr>"

text \<open>A run of two epochs with batch size 1.\<close>

definition args_two :: args where
  "args_two = args_fresh\<lparr>args_batch_size := 1, args_epochs := 2\<rparr>"

section \<open>Properties of \<open>BatchGen\<close>\<close>

subsection \<open>Chunking\<close>

lemma py_range_nth_aux:
  "0 < k \<Longrightarrow> py_range i n k = map (\<lambda>m. i + m * k) [0..<(n - i + k - 1) div k]"
proof (induction i n k rule: py_range.induct)
  case (1 i n k)
  show ?case
  proof (cases "n \<le> i")
    case True
    with 1(2) show ?thesis by (simp add: py_range.simps)
  next
    case False
    let ?L = "(n - i + k - 1) div k"
    have L: "?L = Suc ((n - (i + k) + k - 1) div k)"
    proof -
      have "n - i + k - 1 = (n - i - 1) + k" using False 1(2) by simp
      define m where "m = n - i - 1"
      have "n - i + k - 1 = m + k" using False 1(2) by (simp add: m_def)
      then have "?L = (m + k) div k" by simp
      also have "\<dots> = Suc (m div k)" using 1(2) by simp
      finally have a: "?L = Suc ((n - i - 1) div k)" by (simp add: m_def)
      show ?thesis
      proof (cases "n \<le> i + k")
        case True
        then have "n - i - 1 < k" using False by simp
        then have "(n - i - 1) div k = 0" by simp
        moreover have "(n - (i + k) + k - 1) div k = 0" using True 1(2) by simp
        ultimately show ?thesis using a by simp
      next
        case F2: False
        then have "n - i - 1 = (n - (i + k) + k - 1)" by simp
        then show ?thesis using a by simp
      qed
    qed
    have "py_range i n k = i # py_range (i + k) n k"
      using False 1(2) by (subst py_range.simps) simp
    also have "py_range (i + k) n k = map (\<lambda>m. (i + k) + m * k) [0..<(n - (i + k) + k - 1) div k]"
      using 1(1) False 1(2) by simp
    also have "i # \<dots> = map (\<lambda>m. i + m * k) [0..<?L]"
      unfolding L by (simp add: upt_conv_Cons map_Suc_upt[symmetric] del: upt_Suc add: algebra_simps)
    finally show ?thesis .
  qed
qed

lemma concat_chunks_aux:
  "0 < k \<Longrightarrow> concat (map (\<lambda>j. take k (drop j xs)) (py_range i (length xs) k)) = drop i xs"
proof (induction i "length xs" k rule: py_range.induct)
  case (1 i k)
  show ?case
  proof (cases "length xs \<le> i")
    case True
    then show ?thesis by (simp add: py_range.simps)
  next
    case False
    have "py_range i (length xs) k = i # py_range (i + k) (length xs) k"
      using False 1(2) by (subst py_range.simps) simp
    moreover have "concat (map (\<lambda>j. take k (drop j xs)) (py_range (i + k) (length xs) k)) = drop (i + k) xs"
      using 1(1) False 1(2) by simp
    moreover have "take k (drop i xs) @ drop (i + k) xs = drop i xs"
      by (metis add.commute append_take_drop_id drop_drop)
    ultimately show ?thesis by simp
  qed
qed


lemma chunk_pos:
  "0 < bs \<Longrightarrow> chunk xs bs =
     Inr (map (\<lambda>m. take (nat bs) (drop (m * nat bs) xs)) [0..<(length xs + nat bs - 1) div nat bs])"
  by (simp add: chunk_def py_range_nth_aux comp_def)

lemma concat_chunk: "0 < bs \<Longrightarrow> chunk xs bs = Inr cs \<Longrightarrow> concat cs = xs"
  using concat_chunks_aux [of "nat bs" xs 0] by (auto simp: chunk_def)

lemma length_chunk:
  "0 < bs \<Longrightarrow> chunk xs bs = Inr cs \<Longrightarrow> length cs = (length xs + nat bs - 1) div nat bs"
  by (auto simp: chunk_pos)

lemma nth_chunk:
  "0 < bs \<Longrightarrow> chunk xs bs = Inr cs \<Longrightarrow> m < length cs \<Longrightarrow>
     cs ! m = take (nat bs) (drop (m * nat bs) xs)"
  by (auto simp: chunk_pos)

lemma ceil_div_bounds:
  fixes n k m :: nat
  assumes "0 < k" "m < (n + k - 1) div k"
  shows "m * k < n"
proof -
  have "Suc m \<le> (n + k - 1) div k" using assms by simp
  then have "Suc m * k \<le> n + k - 1" using assms(1) by (simp add: less_eq_div_iff_mult_less_eq)
  then show ?thesis using assms(1) by simp
qed

lemma chunk_nonempty:
  assumes "0 < bs" "chunk xs bs = Inr cs" "m < length cs"
  shows "cs ! m \<noteq> []" "int (length (cs ! m)) \<le> bs"
proof -
  have "m * nat bs < length xs"
    using ceil_div_bounds [of "nat bs" m "length xs"] assms by (simp add: length_chunk)
  then show "cs ! m \<noteq> []" using assms by (simp add: nth_chunk)
  show "int (length (cs ! m)) \<le> bs" using assms by (simp add: nth_chunk)
qed

lemma chunk_full:
  assumes "0 < bs" "chunk xs bs = Inr cs" "Suc m < length cs"
  shows "int (length (cs ! m)) = bs"
proof -
  have "Suc m * nat bs < length xs"
    using ceil_div_bounds [of "nat bs" "Suc m" "length xs"] assms by (simp add: length_chunk)
  then have "nat bs \<le> length xs - m * nat bs" by simp
  then show ?thesis using assms by (simp add: nth_chunk)
qed

lemma sorted_key_take_drop:
  "sorted (map f xs) \<Longrightarrow> sorted (map f (take k (drop j xs)))"
proof -
  assume "sorted (map f xs)"
  then have "sorted (take k (drop j (map f xs)))" by simp
  then show ?thesis by (simp only: take_map drop_map)
qed

lemma shuffle_from_mset:
  "i < length xs \<or> (i = 0) \<Longrightarrow> mset (fst (shuffle_from rb i xs g)) = mset xs"
proof (induction i arbitrary: xs g)
  case 0
  then show ?case by simp
next
  case (Suc i)
  then have len: "Suc i < length xs" by simp
  obtain j g' where r: "rb (Suc i + 1) g = (j, g')" by (cases "rb (Suc i + 1) g")
  have "j mod Suc (Suc i) < Suc (Suc i)" by (rule mod_less_divisor) simp
  then have j: "j mod Suc (Suc i) < length xs" using len by linarith
  have "mset (swap xs (Suc i) (j mod Suc (Suc i))) = mset xs"
    unfolding swap_def using mset_swap [OF j len] by simp
  moreover have "length (swap xs (Suc i) (j mod Suc (Suc i))) = length xs" by (simp add: swap_def)
  ultimately show ?case
    using Suc.IH [of "swap xs (Suc i) (j mod Suc (Suc i))" g'] len r by simp
qed

lemma shuffle_mset: "mset (fst (shuffle rb xs g)) = mset xs"
  unfolding shuffle_def by (rule shuffle_from_mset) (cases xs; simp)

lemma ceiling_nat_div:
  fixes n k :: nat
  assumes "0 < k"
  shows "\<lceil>real n / real k\<rceil> = int ((n + k - 1) div k)"
proof (rule ceiling_unique)
  let ?q = "(n + k - 1) div k"
  have k: "0 < real k" using assms by simp
  have "?q * k \<le> n + k - 1" by simp
  then have "?q * k < n + k" using assms by linarith
  then have "real (?q * k) < real (n + k)" by (simp only: of_nat_less_iff)
  then have "(real ?q - 1) * real k < real n" by (simp add: algebra_simps)
  then show "of_int (int ?q) - 1 < real n / real k" using k by (simp add: pos_less_divide_eq)
  have "n + k - 1 < ?q * k + k" using assms
    by (metis (no_types) add.commute dividend_less_div_times mult.commute)
  then have "n \<le> ?q * k" using assms by linarith
  then have "real n \<le> real (?q * k)" by (simp only: of_nat_le_iff)
  then show "real n / real k \<le> of_int (int ?q)" using k by (simp add: pos_divide_le_eq)
qed

lemma mset_concat_cong: "mset xss = mset yss \<Longrightarrow> mset (concat xss) = mset (concat yss)"
proof -
  assume "mset xss = mset yss"
  then have "sum_mset (image_mset mset (mset xss)) = sum_mset (image_mset mset (mset yss))" by simp
  then show ?thesis by (simp add: mset_concat flip: sum_mset_sum_list)
qed

subsection \<open>Shuffling\<close>

lemma swap_nth:
  "i < length xs \<Longrightarrow> j < length xs \<Longrightarrow>
   swap xs i j ! k = (if k = i then xs ! j else if k = j then xs ! i else xs ! k)"
  by (auto simp: swap_def nth_list_update)

lemma length_swap [simp]: "length (swap xs i j) = length xs"
  by (simp add: swap_def)

lemma shuffle_from_frame:
  "i < length xs \<or> i = 0 \<Longrightarrow>
   length (fst (shuffle_from rb i xs g)) = length xs \<and>
   (\<forall>k. i < k \<longrightarrow> fst (shuffle_from rb i xs g) ! k = xs ! k)"
proof (induction i arbitrary: xs g)
  case 0
  then show ?case by simp
next
  case (Suc i)
  then have len: "Suc i < length xs" by simp
  obtain j g' where r: "rb (Suc i + 1) g = (j, g')" by (cases "rb (Suc i + 1) g")
  let ?j = "j mod Suc (Suc i)"
  have "?j < Suc (Suc i)" by (rule mod_less_divisor) simp
  then have j: "?j < length xs" "?j \<le> Suc i" using len by linarith+
  let ?xs = "swap xs (Suc i) ?j"
  have IH: "length (fst (shuffle_from rb i ?xs g')) = length ?xs \<and>
     (\<forall>k. i < k \<longrightarrow> fst (shuffle_from rb i ?xs g') ! k = ?xs ! k)"
    using Suc.IH [of ?xs g'] len by simp
  have "fst (shuffle_from rb (Suc i) xs g) ! k = xs ! k" if "Suc i < k" for k
  proof -
    have "fst (shuffle_from rb i ?xs g') ! k = ?xs ! k" using IH that by simp
    also have "\<dots> = xs ! k"
    proof -
      have "k \<noteq> Suc i" "k \<noteq> ?j" using that j(2) by linarith+
      then show ?thesis by (simp add: swap_def)
    qed
    finally show ?thesis using r by simp
  qed
  then show ?case using IH r by simp
qed

lemma shuffle_last:
  assumes "2 \<le> length xs"
  shows "last (fst (shuffle rb xs g)) = xs ! (fst (rb (length xs) g) mod length xs)"
proof -
  obtain i where i: "length xs = Suc (Suc i)" using assms
    by (metis Suc_le_D numeral_2_eq_2 Suc_le_mono)
  obtain j g' where r: "rb (length xs) g = (j, g')" by (cases "rb (length xs) g")
  let ?j = "j mod length xs"
  have j: "?j < length xs" using i by simp
  let ?xs = "swap xs (Suc i) ?j"
  let ?res = "fst (shuffle rb xs g)"
  have res: "?res = fst (shuffle_from rb i ?xs g')"
    using r i by (simp add: shuffle_def)
  have fr: "length ?res = length xs" "?res ! Suc i = ?xs ! Suc i"
    using shuffle_from_frame [of i ?xs rb g'] i by (simp_all add: res)
  have "?res \<noteq> []" using fr(1) i by auto
  then have "last ?res = ?res ! Suc i" using fr(1) i by (simp add: last_conv_nth)
  also have "\<dots> = xs ! ?j" using fr(2) j i by (simp add: swap_nth)
  finally show ?thesis using r by simp
qed

lemma word_randbelow_cons:
  "j < n \<Longrightarrow> word_randbelow n (\<lambda>k. case k of 0 \<Rightarrow> j | Suc k' \<Rightarrow> g k') = (j, g)"
  by (simp add: word_randbelow_def)

lemma mset_take_Suc:
  "i < length xs \<Longrightarrow> mset (take (Suc i) xs) = add_mset (xs ! i) (mset (take i xs))"
  by (simp add: take_Suc_conv_app_nth)

lemma shuffle_from_onto:
  "i < length xs \<Longrightarrow> length ys = length xs \<Longrightarrow>
   mset (take (Suc i) ys) = mset (take (Suc i) xs) \<Longrightarrow> drop (Suc i) ys = drop (Suc i) xs \<Longrightarrow>
   \<exists>g. fst (shuffle_from word_randbelow i xs g) = ys"
proof (induction i arbitrary: xs)
  case 0
  have "ys = xs" using 0 by (cases xs; cases ys) auto
  then show ?case by simp
next
  case (Suc i)
  let ?n = "Suc (Suc i)"
  have leny: "Suc i < length ys" using Suc.prems by simp
  have "ys ! Suc i \<in># mset (take ?n ys)"
    using leny by (simp add: take_Suc_conv_app_nth)
  then have "ys ! Suc i \<in># mset (take ?n xs)" using Suc.prems(3) by simp
  then have "ys ! Suc i \<in> set (take ?n xs)" by simp
  then obtain j where j: "j < ?n" "j < length xs" "xs ! j = ys ! Suc i"
    using Suc.prems(1) by (auto simp: in_set_conv_nth)
  let ?xs = "swap xs (Suc i) j"
  have l: "length ?xs = length xs" by simp
  have top: "?xs ! Suc i = ys ! Suc i" using j Suc.prems(1) by (simp add: swap_nth)
  have tk: "take ?n ?xs = swap (take ?n xs) (Suc i) j"
    using j Suc.prems(1) by (simp add: swap_def take_update_swap)
  have a: "j < length (take ?n xs)" "Suc i < length (take ?n xs)"
    using j Suc.prems(1) by simp_all
  have b: "take ?n xs ! j = xs ! j" "take ?n xs ! Suc i = xs ! Suc i" using j by simp_all
  have "mset (take ?n ?xs) = mset (swap (take ?n xs) (Suc i) j)" by (simp only: tk)
  also have "\<dots> = mset ((take ?n xs)[Suc i := take ?n xs ! j, j := take ?n xs ! Suc i])"
    by (simp only: swap_def)
  also have "\<dots> = mset (take ?n xs)" using mset_swap [OF a] .
  finally have "mset (take ?n ?xs) = mset (take ?n xs)" .
  then have "mset (take ?n ?xs) = mset (take ?n ys)" using Suc.prems(3) by simp
  then have "add_mset (?xs ! Suc i) (mset (take (Suc i) ?xs))
      = add_mset (ys ! Suc i) (mset (take (Suc i) ys))"
    using mset_take_Suc [of "Suc i" ?xs] mset_take_Suc [of "Suc i" ys] leny Suc.prems(1) l
    by simp
  then have m: "mset (take (Suc i) ys) = mset (take (Suc i) ?xs)" using top by simp
  have "drop ?n ?xs = drop ?n xs" using j by (simp add: swap_def)
  then have d2: "drop ?n ys = drop ?n ?xs" using Suc.prems(4) by simp
  have "drop (Suc i) ys = ys ! Suc i # drop ?n ys" using leny by (simp add: Cons_nth_drop_Suc)
  also have "\<dots> = ?xs ! Suc i # drop ?n ?xs" using top d2 by simp
  also have "\<dots> = drop (Suc i) ?xs" using Suc.prems(1) l by (simp add: Cons_nth_drop_Suc)
  finally have d: "drop (Suc i) ys = drop (Suc i) ?xs" .
  have "i < length ?xs" using Suc.prems(1) by simp
  from Suc.IH [OF this _ m d] obtain g where g: "fst (shuffle_from word_randbelow i ?xs g) = ys"
    using Suc.prems(2) by auto
  let ?g = "\<lambda>k. case k of 0 \<Rightarrow> j | Suc k' \<Rightarrow> g k'"
  have "word_randbelow (Suc i + 1) ?g = (j, g)" using j(1) word_randbelow_cons [of j ?n g] by simp
  then have "fst (shuffle_from word_randbelow (Suc i) xs ?g) = ys"
    using g j(1) by simp
  then show ?case by blast
qed

lemma shuffle_onto:
  assumes "mset ys = mset xs"
  shows "\<exists>g. fst (shuffle word_randbelow xs g) = ys"
proof (cases xs)
  case Nil
  then show ?thesis using assms by (simp add: shuffle_def)
next
  case (Cons x xs')
  have len: "length ys = length xs" using assms by (rule mset_eq_length)
  have "\<exists>g. fst (shuffle_from word_randbelow (length xs - 1) xs g) = ys"
    using assms len Cons by (intro shuffle_from_onto) simp_all
  then show ?thesis by (simp add: shuffle_def)
qed

subsection \<open>Padding\<close>

lemma long_tensor_Inr: "long_tensor doc = Inr v \<Longrightarrow> v = doc"
  by (simp add: long_tensor_def split: if_splits)

lemma assign_prefix_Inr:
  "assign_prefix t i n v = Inr t' \<Longrightarrow>
     i < length t \<and> length v = min n (length (t ! i)) \<and> t' = t[i := v @ drop n (t ! i)]"
  by (auto simp: assign_prefix_def split: if_splits)

lemma fill_ids_rows:
  "fill_ids t i docs = Inr t' \<Longrightarrow>
     length t' = length t \<and>
     (\<forall>r<length t. t' ! r =
        (if i \<le> r \<and> r < i + length docs
         then docs ! (r - i) @ drop (length (docs ! (r - i))) (t ! r) else t ! r)) \<and>
     (\<forall>m<length docs. i + m < length t \<and> length (docs ! m) \<le> length (t ! (i + m)))"
proof (induction docs arbitrary: t i)
  case Nil
  then show ?case by auto
next
  case (Cons doc docs)
  from Cons.prems obtain v t1 where
    v: "long_tensor doc = Inr v" and
    a: "assign_prefix t i (length doc) v = Inr t1" and
    r: "fill_ids t1 (Suc i) docs = Inr t'"
    by (auto split: sum.splits)
  have vd: "v = doc" using v by (rule long_tensor_Inr)
  from assign_prefix_Inr [OF a] vd have
    i: "i < length t" and le: "length doc \<le> length (t ! i)" and
    t1: "t1 = t[i := doc @ drop (length doc) (t ! i)]" by auto
  note IH = Cons.IH [OF r]
  have len: "length t1 = length t" by (simp add: t1)
  have 1: "length t' = length t" using IH len by simp
  have 2: "t' ! r =
        (if i \<le> r \<and> r < i + length (doc # docs)
         then (doc # docs) ! (r - i) @ drop (length ((doc # docs) ! (r - i))) (t ! r) else t ! r)"
    if "r < length t" for r
  proof -
    have "t' ! r = (if Suc i \<le> r \<and> r < Suc i + length docs
         then docs ! (r - Suc i) @ drop (length (docs ! (r - Suc i))) (t1 ! r) else t1 ! r)"
      using IH that len by simp
    then show ?thesis using that i
      by (cases "r = i") (auto simp: t1 nth_Cons')
  qed
  have 3: "i + m < length t \<and> length ((doc # docs) ! m) \<le> length (t ! (i + m))"
    if "m < length (doc # docs)" for m
  proof (cases m)
    case 0
    then show ?thesis using i le by simp
  next
    case (Suc m')
    then have "m' < length docs" using that by simp
    then have "Suc i + m' < length t1 \<and> length (docs ! m') \<le> length (t1 ! (Suc i + m'))"
      using IH by blast
    then show ?thesis using Suc by (simp add: t1)
  qed
  show ?case using 1 2 3 by blast
qed

lemma fold_max_ge: "(l::nat) \<le> fold max ls l \<and> (\<forall>x\<in>set ls. x \<le> fold max ls l)"
proof (induction ls arbitrary: l)
  case Nil
  then show ?case by simp
next
  case (Cons a ls)
  have "max a l \<le> fold max ls (max a l)" using Cons.IH by blast
  then show ?case using Cons.IH [of "max a l"] by auto
qed

lemma fold_max_in: "fold max ls (l::nat) \<in> set (l # ls)"
proof (induction ls arbitrary: l)
  case Nil
  then show ?case by simp
next
  case (Cons a ls)
  have "fold max ls (max a l) \<in> set (max a l # ls)" using Cons.IH by blast
  moreover have "max a l = a \<or> max a l = l" by (simp add: max_def)
  ultimately show ?case by auto
qed

lemma max_len_Max: "max_len xs = Inr w \<Longrightarrow> xs \<noteq> [] \<and> w = Max (length ` set xs)"
proof -
  assume a: "max_len xs = Inr w"
  then obtain x xs' where xs: "xs = x # xs'" by (cases xs) (auto simp: max_len_def)
  then have w: "w = fold max (map length xs') (length x)" using a by (simp add: max_len_def)
  have "w \<in> length ` set xs"
    using fold_max_in [of "map length xs'" "length x"] by (simp add: w xs)
  moreover have "\<forall>l\<in>length ` set xs. l \<le> w"
    using fold_max_ge [of "length x" "map length xs'"] by (auto simp: w xs)
  ultimately have "Max (length ` set xs) = w" by (intro Max_eqI) auto
  then show ?thesis using xs by simp
qed

lemma pad_rows:
  assumes "fill_ids (replicate n (replicate w pad)) 0 docs = Inr t" "length docs = n" "i < n"
  shows "length t = n" "t ! i = docs ! i @ replicate (w - length (docs ! i)) pad" "length (t ! i) = w"
proof -
  note r = fill_ids_rows [OF assms(1)]
  show "length t = n" using r by simp
  have le: "length (docs ! i) \<le> w" using r assms(2,3) by auto
  show "t ! i = docs ! i @ replicate (w - length (docs ! i)) pad"
    using r assms(2,3) by simp
  then show "length (t ! i) = w" using le by simp
qed

subsection \<open>One-hot tensors\<close>

lemma assign_entry_Inr:
  assumes "assign_entry t i j k v = Inr t'" "0 \<le> k"
  shows "i < length t" "j < length (t ! i)" "nat k < length (t ! i ! j)"
    "t' = t[i := (t ! i)[j := (t ! i ! j)[nat k := v]]]"
  using assms by (auto simp: assign_entry_def split: if_splits)

lemma assign_entry_shape:
  assumes "assign_entry t i j k v = Inr t'" "0 \<le> k"
  shows "length t' = length t"
    and "length (t' ! r) = length (t ! r)"
    and "length (t' ! r ! c) = length (t ! r ! c)"
proof -
  note a = assign_entry_Inr [OF assms]
  show "length t' = length t" using a by simp
  show "length (t' ! r) = length (t ! r)" using a by (cases "r = i") simp_all
  show "length (t' ! r ! c) = length (t ! r ! c)"
    using a by (cases "r = i"; cases "c = j") simp_all
qed

lemma assign_entry_nth:
  assumes "assign_entry t i j k v = Inr t'" "0 \<le> k"
  shows "t' ! r ! c ! d = (if r = i \<and> c = j \<and> d = nat k then v else t ! r ! c ! d)"
proof -
  note a = assign_entry_Inr [OF assms]
  show ?thesis using a by (cases "r = i"; cases "c = j"; cases "d = nat k") simp_all
qed

lemma fill_onehot_doc_spec:
  assumes "fill_onehot_doc t i j tags = Inr t'" "list_all (\<lambda>k. 0 \<le> k) tags"
  shows "length t' = length t \<and>
    (\<forall>r. length (t' ! r) = length (t ! r)) \<and>
    (\<forall>r c. length (t' ! r ! c) = length (t ! r ! c)) \<and>
    (\<forall>r c d. t' ! r ! c ! d =
       (if r = i \<and> j \<le> c \<and> c < j + length tags \<and> d = nat (tags ! (c - j)) then 1
        else t ! r ! c ! d)) \<and>
    (\<forall>m<length tags. i < length t \<and> j + m < length (t ! i) \<and>
       nat (tags ! m) < length (t ! i ! (j + m)))"
  using assms
proof (induction tags arbitrary: t j)
  case Nil
  then show ?case by auto
next
  case (Cons tag tags)
  from Cons.prems obtain t1 where
    a: "assign_entry t i j tag 1 = Inr t1" and
    r: "fill_onehot_doc t1 i (Suc j) tags = Inr t'"
    by (auto split: sum.splits)
  have k: "0 \<le> tag" and ks: "list_all (\<lambda>k. 0 \<le> k) tags" using Cons.prems by simp_all
  note sh = assign_entry_shape [OF a k]
  note nth = assign_entry_nth [OF a k]
  note inr = assign_entry_Inr(1-3) [OF a k]
  note IH = Cons.IH [OF r ks]
  have 1: "length t' = length t" using IH sh by simp
  have 2: "length (t' ! r) = length (t ! r)" for r using IH sh by simp
  have 3: "length (t' ! r ! c) = length (t ! r ! c)" for r c using IH sh by simp
  have 4: "t' ! r ! c ! d =
       (if r = i \<and> j \<le> c \<and> c < j + length (tag # tags) \<and> d = nat ((tag # tags) ! (c - j))
        then 1 else t ! r ! c ! d)" for r c d
  proof -
    have "t' ! r ! c ! d =
       (if r = i \<and> Suc j \<le> c \<and> c < Suc j + length tags \<and> d = nat (tags ! (c - Suc j)) then 1
        else t1 ! r ! c ! d)" using IH by blast
    then show ?thesis
      by (cases "c = j") (auto simp: nth nth_Cons' Suc_diff_Suc)
  qed
  have 5: "i < length t \<and> j + m < length (t ! i) \<and>
       nat ((tag # tags) ! m) < length (t ! i ! (j + m))" if "m < length (tag # tags)" for m
  proof (cases m)
    case 0
    then show ?thesis using inr by simp
  next
    case (Suc m')
    then have "m' < length tags" using that by simp
    then have "i < length t1 \<and> Suc j + m' < length (t1 ! i) \<and>
       nat (tags ! m') < length (t1 ! i ! (Suc j + m'))" using IH by blast
    then show ?thesis using Suc sh by simp
  qed
  show ?case using 1 2 3 4 5 by blast
qed

lemma fill_onehot_spec:
  assumes "fill_onehot t i docs = Inr t'" "list_all (list_all (\<lambda>k. 0 \<le> k)) docs"
  shows "length t' = length t \<and>
    (\<forall>r. length (t' ! r) = length (t ! r)) \<and>
    (\<forall>r c. length (t' ! r ! c) = length (t ! r ! c)) \<and>
    (\<forall>r c d. t' ! r ! c ! d =
       (if i \<le> r \<and> r < i + length docs \<and> c < length (docs ! (r - i)) \<and>
           d = nat (docs ! (r - i) ! c) then 1
        else t ! r ! c ! d)) \<and>
    (\<forall>m<length docs. \<forall>c<length (docs ! m). i + m < length t \<and> c < length (t ! (i + m)) \<and>
       nat (docs ! m ! c) < length (t ! (i + m) ! c))"
  using assms
proof (induction docs arbitrary: t i)
  case Nil
  then show ?case by auto
next
  case (Cons doc docs)
  from Cons.prems obtain t1 where
    a: "fill_onehot_doc t i 0 doc = Inr t1" and
    r: "fill_onehot t1 (Suc i) docs = Inr t'"
    by (auto split: sum.splits)
  have k: "list_all (\<lambda>k. 0 \<le> k) doc" and ks: "list_all (list_all (\<lambda>k. 0 \<le> k)) docs"
    using Cons.prems by simp_all
  note D = fill_onehot_doc_spec [OF a k]
  note IH = Cons.IH [OF r ks]
  have 1: "length t' = length t" using IH D by simp
  have 2: "length (t' ! r) = length (t ! r)" for r using IH D by simp
  have 3: "length (t' ! r ! c) = length (t ! r ! c)" for r c using IH D by simp
  have 4: "t' ! r ! c ! d =
       (if i \<le> r \<and> r < i + length (doc # docs) \<and> c < length ((doc # docs) ! (r - i)) \<and>
           d = nat ((doc # docs) ! (r - i) ! c) then 1
        else t ! r ! c ! d)" for r c d
  proof -
    have "t' ! r ! c ! d =
       (if Suc i \<le> r \<and> r < Suc i + length docs \<and> c < length (docs ! (r - Suc i)) \<and>
           d = nat (docs ! (r - Suc i) ! c) then 1
        else t1 ! r ! c ! d)" using IH by blast
    moreover have "t1 ! r ! c ! d =
       (if r = i \<and> c < length doc \<and> d = nat (doc ! c) then 1 else t ! r ! c ! d)"
      using D by simp
    ultimately show ?thesis
      by (cases "r = i") (auto simp: nth_Cons' Suc_diff_Suc)
  qed
  have 5: "i + m < length t \<and> c < length (t ! (i + m)) \<and>
       nat ((doc # docs) ! m ! c) < length (t ! (i + m) ! c)"
    if "m < length (doc # docs)" "c < length ((doc # docs) ! m)" for m c
  proof (cases m)
    case 0
    then show ?thesis using D that by auto
  next
    case (Suc m')
    then have "m' < length docs" "c < length (docs ! m')" using that by simp_all
    then have "Suc i + m' < length t1 \<and> c < length (t1 ! (Suc i + m')) \<and>
       nat (docs ! m' ! c) < length (t1 ! (Suc i + m') ! c)" using IH by blast
    then show ?thesis using Suc D by simp
  qed
  show ?case using 1 2 3 4 5 by blast
qed

subsection \<open>The sample rows, evaluated\<close>

lemma sorted_sample: "sorted_by_len [dev_a, dev_b] = [dev_b, dev_a]"
  by (simp add: sorted_by_len_def dev_a_def dev_b_def)

lemma chunk_sample: "chunk [dev_b, dev_a] 2 = Inr [[dev_b, dev_a]]"
  by (simp add: chunk_def py_range.simps)

lemma init_sample:
  "BatchGen_init rb (Some 3, Some 2) 0 [dev_a, dev_b] 2 False True False g = Inr (dev_gen, g)"
  by (simp add: BatchGen_init_def sorted_sample chunk_sample dev_gen_def)

lemma iter_sample: "iter_batch dev_gen [dev_b, dev_a] = Inr dev_batch"
  by (simp add: iter_batch_def dev_gen_def dev_batch_def dev_a_def dev_b_def zip_len_def n_fields_def max_len_def
      long_tensor_def assign_prefix_def dense_tensors_def first_feature_len_def zeros_def
      assign_vector_def assign_entry_def onehot_tensor_def pin_memory_def numeral_eq_Suc)

subsection \<open>The constructor and the collated batch\<close>

lemma BatchGen_init_Inr:
  assumes "BatchGen_init rb cls bert_pad data0 bs gpu0 evaluation bert0 g = Inr (bg, g')"
  shows "\<exists>cs. chunk (sorted_by_len data0) bs = Inr cs \<and>
           (data bg, g') = (if \<not> evaluation then shuffle rb cs g else (cs, g)) \<and>
           pad_token bg = (if bert0 then bert_pad else 0) \<and> eval bg = evaluation \<and>
           bert bg = bert0 \<and> gpu bg = gpu0 \<and> batch_size bg = bs \<and>
           pos_size bg = fst cls \<and> ner_size bg = snd cls"
  using assms
  by (auto simp: BatchGen_init_def Let_def split: sum.splits prod.splits if_splits)

lemma BatchGen_init_total:
  assumes "0 < bs"
  shows "\<exists>bg g'. BatchGen_init rb cls bert_pad data0 bs gpu0 evaluation bert0 g = Inr (bg, g')"
  using assms by (simp add: BatchGen_init_def chunk_pos Let_def split: prod.splits)

lemma iter_batch_Inr:
  assumes "iter_batch self b = Inr y"
  shows "\<exists>cl ql. max_len (map x1 b) = Inr cl \<and>
     fill_ids (replicate (length b) (replicate cl (pad_token self))) 0 (map x1 b) = Inr (context_id y) \<and>
     max_len (map x5 b) = Inr ql \<and>
     fill_ids (replicate (length b) (replicate ql (pad_token self))) 0 (map x5 b) = Inr (question_id y) \<and>
     (\<not> bert self \<longrightarrow>
        dense_tensors self b cl = Inr (context_feature y, context_tag y, context_ent y))"
  using assms unfolding iter_batch_def pin_memory_def
  by (auto split: if_splits sum.splits prod.splits)

lemma max_len_map: "max_len (map f b) = Inr w \<Longrightarrow> b \<noteq> [] \<and> w = Max ((\<lambda>x. length (f x)) ` set b)"
  using max_len_Max [of "map f b" w] by (simp add: image_image)

lemma padded_matrix:
  assumes "max_len (map f b) = Inr w"
    and "fill_ids (replicate (length b) (replicate w pad)) 0 (map f b) = Inr t"
    and "i < length b"
  shows "length t = length b \<and>
    length (t ! i) = Max ((\<lambda>x. length (f x)) ` set b) \<and>
    t ! i = f (b ! i) @ replicate (Max ((\<lambda>x. length (f x)) ` set b) - length (f (b ! i))) pad"
proof -
  have w: "w = Max ((\<lambda>x. length (f x)) ` set b)" using max_len_map [OF assms(1)] by simp
  have n: "length (map f b) = length b" by simp
  show ?thesis
    using pad_rows [OF assms(2) n assms(3)] assms(3) by (simp add: w)
qed

lemma onehot_tensor_spec:
  assumes "onehot_tensor depth n w docs = Inr t" "length docs = n"
    and "list_all (list_all (\<lambda>k. 0 \<le> k)) docs" "r < n" "c < w"
  shows "\<exists>p. depth = Some p \<and> length t = n \<and> length (t ! r) = w \<and> length (t ! r ! c) = p \<and>
     (\<forall>d<p. t ! r ! c ! d = (if c < length (docs ! r) \<and> docs ! r ! c = int d then 1 else 0))"
proof -
  from assms(1) obtain p where p: "depth = Some p" and
    f: "fill_onehot (zeros n w p) 0 docs = Inr t"
    by (auto simp: onehot_tensor_def split: option.splits)
  note S = fill_onehot_spec [OF f assms(3)]
  have z: "length (zeros n w p) = n" "length (zeros n w p ! r) = w"
    "length (zeros n w p ! r ! c) = p" "\<And>d. d < p \<Longrightarrow> zeros n w p ! r ! c ! d = 0"
    using assms(4,5) by (simp_all add: zeros_def)
  have e: "t ! r ! c ! d = (if c < length (docs ! r) \<and> docs ! r ! c = int d then 1 else 0)"
    if "d < p" for d
  proof -
    have "t ! r ! c ! d = (if c < length (docs ! r) \<and> d = nat (docs ! r ! c) then 1 else 0)"
      using S assms(2,4) z(4) [OF that] by simp
    moreover have "0 \<le> docs ! r ! c" if "c < length (docs ! r)"
      using assms(2,3,4) that by (simp add: list_all_length)
    ultimately show ?thesis by auto
  qed
  show ?thesis using p S z e by simp
qed

section \<open>Properties of \<open>DocReaderModel\<close> and \<open>main\<close>\<close>

lemma lookup_opt: "lookup_in_predict ''opt'' = Inl (NameError ''opt'')"
  by (simp add: lookup_in_predict_def predict_locals_def model_py_globals_def)

lemma evaluate_raises:
  assumes "BatchGen_init (randbelow E) cls bert_pad dev (args_batch_size a) (args_cuda a) True bert0 (py_random w)
             = Inr (bg, g)"
    and "BatchGen_iter bg = Inr ex # rest"
  shows "evaluate E cls bert_pad a bert0 model dev dev_y w =
           (Inl (NameError ''opt''), model\<lparr>training := False\<rparr>, w\<lparr>py_random := g\<rparr>)"
  using assms by (simp add: evaluate_def predict_def lookup_opt)

lemma iter_dev_gen: "BatchGen_iter dev_gen = [Inr dev_batch]"
proof -
  have "data dev_gen = [[dev_b, dev_a]]" by (simp add: dev_gen_def)
  then show ?thesis by (simp add: BatchGen_iter_def iter_sample)
qed

lemma evaluate_sample:
  "evaluate E (Some 3, Some 2) 0 args_fresh False model [dev_a, dev_b] dev_y w =
     (Inl (NameError ''opt''), model\<lparr>training := False\<rparr>, w)"
  using evaluate_raises [where a = args_fresh and w = w and cls = "(Some 3, Some 2)" and bert_pad = 0
      and dev = "[dev_a, dev_b]" and ?bert0.0 = False and bg = dev_gen and g = "py_random w"
      and ex = dev_batch and rest = "[]" and E = E and model = model and dev_y = dev_y]
    init_sample iter_dev_gen
  by (simp add: args_fresh_def)

lemma init_train_sample:
  "BatchGen_init rb (Some 3, Some 2) 0 [train_a, train_b] 2 False False False g
     = Inr (train_gen, g)"
  by (simp add: BatchGen_init_def sorted_by_len_def train_a_def train_b_def dev_a_def dev_b_def
      chunk_def py_range.simps shuffle_def train_gen_def)

lemma iter_train_sample: "iter_batch train_gen [train_b, train_a] = Inr train_batch"
  by (simp add: iter_batch_def train_gen_def train_batch_def dev_batch_def train_a_def train_b_def
      dev_a_def dev_b_def zip_len_def n_fields_def max_len_def
      long_tensor_def assign_prefix_def dense_tensors_def first_feature_len_def zeros_def
      assign_vector_def assign_entry_def onehot_tensor_def pin_memory_def numeral_eq_Suc)

lemma iter_train_gen: "BatchGen_iter train_gen = [Inr train_batch]"
proof -
  have "data train_gen = [[train_b, train_a]]" by (simp add: train_gen_def)
  then show ?thesis by (simp add: BatchGen_iter_def iter_train_sample)
qed

lemma model_fresh:
  "DocReaderModel_init ext0 c opt_s None =
     Inr \<lparr>opt = opt_s, device = Cpu, updates = 0, train_loss = 0, network = 0,
          training = True, opt_state_dict = None, optimizer = 0\<rparr>"
  by (simp add: DocReaderModel_init_def build_optimizer_def ext0_def opt_s_def)

lemma update_sample:
  "update ext0 m train_batch g =
     (Inr (), m\<lparr>training := True, train_loss := Suc (train_loss m), network := Suc (network m),
               optimizer := Suc (optimizer m), updates := updates m + 1\<rparr>, g)"
  by (simp add: update_def ext0_def train_batch_def Let_def)

lemma torch_load_sample:
  "torch_load (files world_resume) (path_join ''models'' ''best_model.pt'') = Inr ck_s"
  by (simp add: torch_load_def world_resume_def path_join_def)

lemma model_resumed:
  "DocReaderModel_init ext0 c opt_s (Some (state_dict ck_s)) =
     Inr \<lparr>opt = opt_s, device = Cpu, updates = 4, train_loss = 4, network = 4,
          training = True, opt_state_dict = Some 4, optimizer = 4\<rparr>"
  by (simp add: DocReaderModel_init_def build_optimizer_def ext0_def opt_s_def ck_s_def)

lemma update_all_py_random:
  "py_random (snd (snd (update_all E a model i batches w))) = py_random w"
  by (induction E a model i batches w rule: update_all.induct) (auto split: prod.splits sum.splits)

lemma predict_all_py_random:
  "py_random (snd (snd (predict_all E model batches predictions w))) = py_random w"
  by (induction E model batches predictions w rule: predict_all.induct)
     (auto split: prod.splits sum.splits)

lemma evaluate_py_random:
  "py_random (snd (snd (evaluate E cls bert_pad a bert0 model dev dev_y w))) = py_random w"
proof (cases "BatchGen_init (randbelow E) cls bert_pad dev (args_batch_size a) (args_cuda a) True
                bert0 (py_random w)")
  case (Inl e)
  then show ?thesis by (simp add: evaluate_def)
next
  case (Inr r)
  obtain bg g where r: "r = (bg, g)" by (cases r)
  have g: "g = py_random w" using BatchGen_init_Inr [OF Inr [unfolded r]] by auto
  have "py_random (snd (snd (predict_all E model (BatchGen_iter bg) [] (w\<lparr>py_random := g\<rparr>))))
          = py_random w"
    by (simp add: predict_all_py_random g)
  then show ?thesis using Inr r
    by (auto simp: evaluate_def split: prod.splits sum.splits)
qed

lemma save_py_random: "py_random (snd (save E self filename epoch0 scores w)) = py_random w"
  by (auto simp: save_def split: sum.splits prod.splits option.splits)

lemma save_step_py_random:
  "py_random (snd (save_step E a model epoch0 is_last acc best w)) = py_random w"
proof -
  have "py_random w' = py_random w"
    if "save E model f epoch0 [acc, best] w = (r, w')" for f r w'
    using save_py_random [of E model f epoch0 "[acc, best]" w] that by simp
  then show ?thesis
    by (auto simp: save_step_def Let_def split: prod.splits sum.splits)
qed

lemma train_pass_py_random:
  assumes "BatchGen_init (randbelow E) cls bert_pad train (args_batch_size a) (args_cuda a) False
             (opt_bert opt0) (py_random w) = Inr (bg, g')"
  shows "train_pass E cls bert_pad a opt0 train model w =
           update_all E a model 0 (BatchGen_iter bg) (w\<lparr>py_random := g'\<rparr>)"
    and "py_random (snd (snd (train_pass E cls bert_pad a opt0 train model w))) = g'"
proof -
  show 1: "train_pass E cls bert_pad a opt0 train model w =
           update_all E a model 0 (BatchGen_iter bg) (w\<lparr>py_random := g'\<rparr>)"
    using assms by (simp add: train_pass_def)
  show "py_random (snd (snd (train_pass E cls bert_pad a opt0 train model w))) = g'"
    by (simp add: 1 update_all_py_random)
qed

lemma run_epoch_py_random:
  assumes "BatchGen_init (randbelow E) cls bert_pad train (args_batch_size a) (args_cuda a) False
             (opt_bert opt0) (py_random w) = Inr (bg, g')"
  shows "py_random (snd (run_epoch E cls bert_pad a opt0 train dev dev_y epoch0 is_last model best w))
           = g'"
proof -
  let ?w1 = "w\<lparr>log := log w @ [(WARNING, ''Epoch {}'')]\<rparr>"
  have i: "BatchGen_init (randbelow E) cls bert_pad train (args_batch_size a) (args_cuda a) False
             (opt_bert opt0) (py_random ?w1) = Inr (bg, g')" using assms by simp
  obtain r1 m1 w2 where t: "train_pass E cls bert_pad a opt0 train model ?w1 = (r1, m1, w2)"
    by (cases "train_pass E cls bert_pad a opt0 train model ?w1") auto
  have w2: "py_random w2 = g'" using train_pass_py_random(2) [OF i, of model] t by simp
  show ?thesis
  proof (cases r1)
    case (Inl e)
    then show ?thesis using t w2 by (simp add: run_epoch_def)
  next
    case (Inr u)
    let ?w2 = "w2\<lparr>log := log w2 @ [(DEBUG, [CHR 0x0A])]\<rparr>"
    obtain r2 m2 w3 where e: "evaluate E cls bert_pad a (opt_bert opt0) m1 dev dev_y ?w2 = (r2, m2, w3)"
      by (cases "evaluate E cls bert_pad a (opt_bert opt0) m1 dev dev_y ?w2") auto
    have w3: "py_random w3 = g'"
      using evaluate_py_random [of E cls bert_pad a "opt_bert opt0" m1 dev dev_y ?w2] e w2 by simp
    show ?thesis
    proof (cases r2)
      case (Inl e2)
      then show ?thesis using t Inr e w3 by (simp add: run_epoch_def)
    next
      case (Inr acc)
      let ?w4 = "w3\<lparr>log := log w3 @ [(WARNING, ''dev accuracy {}'')] @
                     (if args_save_dawn_logs a then [(WARNING, ''dawn_entry: {} {} {}'')] else [])\<rparr>"
      have "py_random (snd (save_step E a m2 epoch0 is_last acc best ?w4)) = g'"
        using save_step_py_random [of E a m2 epoch0 is_last acc best ?w4] w3 by simp
      then show ?thesis using t \<open>r1 = Inr u\<close> e Inr
        by (auto simp: run_epoch_def Let_def split: prod.splits sum.splits)
    qed
  qed
qed

lemma run_epochs_py_random:
  assumes "chunk (sorted_by_len train) (args_batch_size a) = Inr cs"
    and "run_epochs E cls bert_pad a opt0 train dev dev_y final n epoch0 model best w = (Inr r, w_end)"
  shows "py_random w_end = ((\<lambda>h. snd (shuffle (randbelow E) cs h)) ^^ n) (py_random w)"
  using assms(2)
proof (induction n arbitrary: epoch0 model best w)
  case 0
  then show ?case by simp
next
  case (Suc n)
  let ?g' = "snd (shuffle (randbelow E) cs (py_random w))"
  obtain bg where i: "BatchGen_init (randbelow E) cls bert_pad train (args_batch_size a) (args_cuda a)
             False (opt_bert opt0) (py_random w) = Inr (bg, ?g')"
    using assms(1) by (cases "shuffle (randbelow E) cs (py_random w)")
      (simp add: BatchGen_init_def Let_def)
  obtain r1 w1 where e: "run_epoch E cls bert_pad a opt0 train dev dev_y epoch0 (epoch0 = final)
             model best w = (r1, w1)"
    by (cases "run_epoch E cls bert_pad a opt0 train dev dev_y epoch0 (epoch0 = final) model best w")
  have w1: "py_random w1 = ?g'"
    using run_epoch_py_random [OF i, of dev dev_y epoch0 "epoch0 = final" model best] e by simp
  from Suc.prems e obtain m1 b1 where
    "run_epochs E cls bert_pad a opt0 train dev dev_y final n (epoch0 + 1) m1 b1 w1 = (Inr r, w_end)"
    by (auto split: sum.splits prod.splits)
  from Suc.IH [OF this]
  have "py_random w_end = ((\<lambda>h. snd (shuffle (randbelow E) cs h)) ^^ n) ?g'" by (simp add: w1)
  also have "\<dots> = ((\<lambda>h. snd (shuffle (randbelow E) cs h)) ^^ Suc n) (py_random w)"
    by (simp only: funpow_Suc_right o_apply)
  finally show ?case .
qed

lemma run_two_epochs:
  "fst (run_epochs ext0 (Some 3, Some 2) 0 args_two opt_s [train_a, train_b] [] [] 2 (Suc (Suc 0)) 1
          model_s (Fin 0) world_gpu) = Inr (Fin 0)"
  by (simp add: run_epoch_def train_pass_def evaluate_def save_step_def save_def build_params_def
      torch_save_def BatchGen_init_def BatchGen_iter_def iter_batch_def update_def score_def
      sorted_by_len_def chunk_def py_range.simps shuffle_def swap_def word_randbelow_def
      args_two_def args_fresh_def opt_s_def ext0_def world_gpu_def model_s_def
      train_a_def train_b_def dev_a_def dev_b_def zip_len_def n_fields_def max_len_def
      long_tensor_def assign_prefix_def dense_tensors_def first_feature_len_def zeros_def
      assign_vector_def assign_entry_def onehot_tensor_def pin_memory_def numeral_eq_Suc
      Let_def)

lemma init_train_ab:
  "BatchGen_init word_randbelow (Some 3, Some 2) 0 [train_a, train_b] 1 False False False (\<lambda>i. i)
     = Inr (train_gen_ab, \<lambda>i. Suc i)"
  by (simp add: BatchGen_init_def sorted_by_len_def train_a_def train_b_def dev_a_def dev_b_def
      chunk_def py_range.simps shuffle_def swap_def word_randbelow_def train_gen_ab_def)

lemma init_train_ba:
  "BatchGen_init word_randbelow (Some 3, Some 2) 0 [train_a, train_b] 1 False False False (\<lambda>i. Suc i)
     = Inr (train_gen_ba, \<lambda>i. Suc (Suc i))"
  by (simp add: BatchGen_init_def sorted_by_len_def train_a_def train_b_def dev_a_def dev_b_def
      chunk_def py_range.simps shuffle_def swap_def word_randbelow_def train_gen_ab_def
      train_gen_ba_def)

lemma chunk_train_sample: "chunk (sorted_by_len [train_a, train_b]) 1 = Inr [[train_b], [train_a]]"
  by (simp add: sorted_by_len_def train_a_def train_b_def dev_a_def dev_b_def chunk_def
      py_range.simps)

section \<open>The claims about \<open>BatchGen\<close>\<close>

text \<open>
  Claim C3. For a positive batch size, \<open>BatchGen\<close> sorts the rows in ascending order of
  \<open>len(x[1])\<close> (the sorted list is a rearrangement of the input) and cuts the sorted list
  into consecutive chunks: their concatenation is the sorted list, every chunk is
  non-empty and has at most \<open>batch_size\<close> rows, every chunk but the last has exactly
  \<open>batch_size\<close> rows. The batches of the object are these chunks (in this order when
  \<open>evaluation\<close> is set, rearranged otherwise), and within every batch the rows are
  ordered by length.
\<close>

theorem C3_sorted_chunks:
  assumes "0 < bs"
  shows "\<exists>cs bg g'.
      chunk (sorted_by_len data0) bs = Inr cs \<and>
      BatchGen_init rb cls bert_pad data0 bs gpu0 evaluation bert0 g = Inr (bg, g') \<and>
      sorted (map (\<lambda>x. length (x1 x)) (sorted_by_len data0)) \<and>
      mset (sorted_by_len data0) = mset data0 \<and>
      concat cs = sorted_by_len data0 \<and>
      (\<forall>m<length cs. cs ! m \<noteq> [] \<and> int (length (cs ! m)) \<le> bs \<and>
         (Suc m < length cs \<longrightarrow> int (length (cs ! m)) = bs)) \<and>
      mset (data bg) = mset cs \<and> (evaluation \<longrightarrow> data bg = cs) \<and>
      (\<forall>b\<in>set (data bg). sorted (map (\<lambda>x. length (x1 x)) b))"
proof -
  let ?s = "sorted_by_len data0"
  let ?key = "\<lambda>x. length (x1 x)"
  obtain bg g' where init: "BatchGen_init rb cls bert_pad data0 bs gpu0 evaluation bert0 g = Inr (bg, g')"
    using BatchGen_init_total [OF assms] by blast
  from BatchGen_init_Inr [OF init] obtain cs where
    cs: "chunk ?s bs = Inr cs" and
    d: "(data bg, g') = (if \<not> evaluation then shuffle rb cs g else (cs, g))" by blast
  have srt: "sorted (map ?key ?s)" by (simp add: sorted_by_len_def)
  have perm: "mset ?s = mset data0" by (simp add: sorted_by_len_def)
  have cat: "concat cs = ?s" using concat_chunk [OF assms cs] .
  have sizes: "\<forall>m<length cs. cs ! m \<noteq> [] \<and> int (length (cs ! m)) \<le> bs \<and>
         (Suc m < length cs \<longrightarrow> int (length (cs ! m)) = bs)"
    using chunk_nonempty [OF assms cs] chunk_full [OF assms cs] by blast
  have ms: "mset (data bg) = mset cs"
  proof (cases evaluation)
    case True
    then show ?thesis using d by simp
  next
    case False
    then have "data bg = fst (shuffle rb cs g)" using d by (metis fst_conv)
    then show ?thesis by (simp add: shuffle_mset)
  qed
  have ev: "evaluation \<longrightarrow> data bg = cs" using d by (auto split: if_splits)
  have "sorted (map ?key b)" if "b \<in> set (data bg)" for b
  proof -
    have "b \<in> set cs" using that ms by (metis mset_eq_setD)
    then obtain m where m: "m < length cs" "b = cs ! m" by (auto simp: in_set_conv_nth)
    then have "b = take (nat bs) (drop (m * nat bs) ?s)" using nth_chunk [OF assms cs] by simp
    then show ?thesis using srt by (simp add: sorted_key_take_drop)
  qed
  then show ?thesis using cs init srt perm cat sizes ms ev by blast
qed

theorem C3_sorted_chunks_witness:
  "(0::int) < 2 \<and>
   (\<exists>cs bg g'.
      chunk (sorted_by_len [dev_a, dev_b, dev_a]) 2 = Inr cs \<and>
      BatchGen_init word_randbelow (Some 3, Some 2) 0 [dev_a, dev_b, dev_a] 2 False True False (\<lambda>i. i) = Inr (bg, g') \<and>
      sorted (map (\<lambda>x. length (x1 x)) (sorted_by_len [dev_a, dev_b, dev_a])) \<and>
      mset (sorted_by_len [dev_a, dev_b, dev_a]) = mset [dev_a, dev_b, dev_a] \<and>
      concat cs = sorted_by_len [dev_a, dev_b, dev_a] \<and>
      (\<forall>m<length cs. cs ! m \<noteq> [] \<and> int (length (cs ! m)) \<le> 2 \<and>
         (Suc m < length cs \<longrightarrow> int (length (cs ! m)) = 2)) \<and>
      mset (data bg) = mset cs \<and> (True \<longrightarrow> data bg = cs) \<and>
      (\<forall>b\<in>set (data bg). sorted (map (\<lambda>x. length (x1 x)) b)))"
proof -
  have h: "(0::int) < 2" by simp
  show ?thesis
    using h C3_sorted_chunks [OF h, where ?data0.0 = "[dev_a, dev_b, dev_a]" and rb = word_randbelow and cls = "(Some 3, Some 2)"
      and bert_pad = 0 and ?gpu0.0 = False and evaluation = True and ?bert0.0 = False and g = "\<lambda>i. i"]
    by (rule conjI)
qed

text \<open>
  Claim C4. For every batch \<open>b\<close> of a \<open>BatchGen\<close> for which \<open>__iter__\<close> yields a tuple \<open>y\<close>:
  \<open>context_id\<close> has one row per example, every row is as long as the longest document
  of the batch, and row \<open>i\<close> is the token ids of document \<open>i\<close> followed by the pad token
  only; likewise \<open>question_id\<close> with the questions. The pad token is 0, and in BERT mode
  the tokenizer's \<open>pad_token_id\<close>.
\<close>

theorem C4_zero_padding:
  assumes "BatchGen_init rb cls bert_pad data0 bs gpu0 evaluation bert0 g = Inr (self, g')"
    and "b \<in> set (data self)" and "iter_batch self b = Inr y" and "i < length b"
  shows "pad_token self = (if bert0 then bert_pad else 0) \<and>
     length (context_id y) = length b \<and>
     length (context_id y ! i) = Max ((\<lambda>x. length (x1 x)) ` set b) \<and>
     context_id y ! i =
       x1 (b ! i) @ replicate (Max ((\<lambda>x. length (x1 x)) ` set b) - length (x1 (b ! i)))
                      (pad_token self) \<and>
     length (question_id y) = length b \<and>
     length (question_id y ! i) = Max ((\<lambda>x. length (x5 x)) ` set b) \<and>
     question_id y ! i =
       x5 (b ! i) @ replicate (Max ((\<lambda>x. length (x5 x)) ` set b) - length (x5 (b ! i)))
                      (pad_token self)"
proof -
  have pad: "pad_token self = (if bert0 then bert_pad else 0)"
    using BatchGen_init_Inr [OF assms(1)] by blast
  from iter_batch_Inr [OF assms(3)] obtain cl ql where
    c: "max_len (map x1 b) = Inr cl"
       "fill_ids (replicate (length b) (replicate cl (pad_token self))) 0 (map x1 b) = Inr (context_id y)" and
    q: "max_len (map x5 b) = Inr ql"
       "fill_ids (replicate (length b) (replicate ql (pad_token self))) 0 (map x5 b) = Inr (question_id y)"
    by blast
  show ?thesis
    using pad padded_matrix [OF c assms(4)] padded_matrix [OF q assms(4)] by blast
qed

theorem C4_zero_padding_witness:
  "BatchGen_init word_randbelow (Some 3, Some 2) 0 [dev_a, dev_b] 2 False True False (\<lambda>i. i) = Inr (dev_gen, \<lambda>i. i) \<and>
   [dev_b, dev_a] \<in> set (data dev_gen) \<and>
   iter_batch dev_gen [dev_b, dev_a] = Inr dev_batch \<and>
   (0::nat) < length [dev_b, dev_a] \<and>
   pad_token dev_gen = 0 \<and>
   context_id dev_batch ! 0 = [14, 0, 0] \<and>
   question_id dev_batch ! 0 = [23, 24, 25]"
proof -
  have h1: "BatchGen_init word_randbelow (Some 3, Some 2) 0 [dev_a, dev_b] 2 False True False (\<lambda>i. i)
              = Inr (dev_gen, \<lambda>i. i)" by (rule init_sample)
  have h2: "[dev_b, dev_a] \<in> set (data dev_gen)" by (simp add: dev_gen_def)
  have h3: "iter_batch dev_gen [dev_b, dev_a] = Inr dev_batch" by (rule iter_sample)
  have h4: "(0::nat) < length [dev_b, dev_a]" by simp
  have "pad_token dev_gen = 0 \<and> context_id dev_batch ! 0 = [14, 0, 0] \<and>
        question_id dev_batch ! 0 = [23, 24, 25]"
    using C4_zero_padding [OF h1 h2 h3 h4] by (simp add: dev_a_def dev_b_def)
  then show ?thesis using h1 h2 h3 h4 by blast
qed

text \<open>
  Claim C5. Outside BERT mode, for every batch \<open>b\<close> whose rows carry one non-negative POS
  number and one non-negative NER number per token and for which \<open>__iter__\<close> yields \<open>y\<close>:
  \<open>context_tag\<close> and \<open>context_ent\<close> have the shape batch size by context length by
  \<open>pos_size\<close> (\<open>ner_size\<close>), and entry \<open>[i, j, t]\<close> is 1 when \<open>j\<close> is a token position of
  document \<open>i\<close> and \<open>t\<close> is its tag, and 0 otherwise; so all entries at padding positions
  are 0.
\<close>

theorem C5_one_hot:
  assumes "iter_batch self b = Inr y" and "\<not> bert self"
    and "list_all (\<lambda>x. length (x3 x) = length (x1 x) \<and> list_all (\<lambda>k. 0 \<le> k) (x3 x) \<and>
                        length (x4 x) = length (x1 x) \<and> list_all (\<lambda>k. 0 \<le> k) (x4 x)) b"
    and "i < length b" and "j < length (context_id y ! i)"
  shows "\<exists>ct ce p q. context_tag y = Some ct \<and> context_ent y = Some ce \<and>
      pos_size self = Some p \<and> ner_size self = Some q \<and>
      length ct = length b \<and> length (ct ! i) = length (context_id y ! i) \<and>
      length (ct ! i ! j) = p \<and>
      length ce = length b \<and> length (ce ! i) = length (context_id y ! i) \<and>
      length (ce ! i ! j) = q \<and>
      (\<forall>t<p. ct ! i ! j ! t =
         (if j < length (x1 (b ! i)) \<and> x3 (b ! i) ! j = int t then 1 else 0)) \<and>
      (\<forall>t<q. ce ! i ! j ! t =
         (if j < length (x1 (b ! i)) \<and> x4 (b ! i) ! j = int t then 1 else 0))"
proof -
  from iter_batch_Inr [OF assms(1)] assms(2) obtain cl where
    c: "max_len (map x1 b) = Inr cl"
       "fill_ids (replicate (length b) (replicate cl (pad_token self))) 0 (map x1 b) = Inr (context_id y)" and
    d: "dense_tensors self b cl = Inr (context_feature y, context_tag y, context_ent y)"
    by blast
  have w: "length (context_id y ! i) = cl"
    using pad_rows(3) [OF c(2) _ assms(4)] by simp
  then have j: "j < cl" using assms(5) by simp
  from d obtain ct ce where
    y: "context_tag y = Some ct" "context_ent y = Some ce" and
    t: "onehot_tensor (pos_size self) (length b) cl (map x3 b) = Inr ct" and
    e: "onehot_tensor (ner_size self) (length b) cl (map x4 b) = Inr ce"
    by (fastforce simp: dense_tensors_def split: sum.splits)
  have wf: "list_all (list_all (\<lambda>k. 0 \<le> k)) (map x3 b)" "list_all (list_all (\<lambda>k. 0 \<le> k)) (map x4 b)"
    using assms(3) by (simp_all add: list_all_length)
  have l: "length (x3 (b ! i)) = length (x1 (b ! i))" "length (x4 (b ! i)) = length (x1 (b ! i))"
    using assms(3,4) by (simp_all add: list_all_length)
  from onehot_tensor_spec [OF t _ wf(1) assms(4) j] obtain p where
    p: "pos_size self = Some p" "length ct = length b" "length (ct ! i) = cl" "length (ct ! i ! j) = p"
       "\<forall>d<p. ct ! i ! j ! d = (if j < length (map x3 b ! i) \<and> map x3 b ! i ! j = int d then 1 else 0)"
    by auto
  from onehot_tensor_spec [OF e _ wf(2) assms(4) j] obtain q where
    q: "ner_size self = Some q" "length ce = length b" "length (ce ! i) = cl" "length (ce ! i ! j) = q"
       "\<forall>d<q. ce ! i ! j ! d = (if j < length (map x4 b ! i) \<and> map x4 b ! i ! j = int d then 1 else 0)"
    by auto
  show ?thesis using y p q w l assms(4) by simp
qed

theorem C5_one_hot_witness:
  "iter_batch dev_gen [dev_b, dev_a] = Inr dev_batch \<and> \<not> bert dev_gen \<and>
   list_all (\<lambda>x. length (x3 x) = length (x1 x) \<and> list_all (\<lambda>k. 0 \<le> k) (x3 x) \<and>
                   length (x4 x) = length (x1 x) \<and> list_all (\<lambda>k. 0 \<le> k) (x4 x)) [dev_b, dev_a] \<and>
   (1::nat) < length [dev_b, dev_a] \<and> (1::nat) < length (context_id dev_batch ! 1) \<and>
   (\<exists>ct ce. context_tag dev_batch = Some ct \<and> context_ent dev_batch = Some ce \<and>
      ct ! 1 ! 1 = [0, 0, 1] \<and> ce ! 1 ! 1 = [1, 0])"
proof -
  have h1: "iter_batch dev_gen [dev_b, dev_a] = Inr dev_batch" by (rule iter_sample)
  have h2: "\<not> bert dev_gen" by (simp add: dev_gen_def)
  have h3: "list_all (\<lambda>x. length (x3 x) = length (x1 x) \<and> list_all (\<lambda>k. 0 \<le> k) (x3 x) \<and>
                   length (x4 x) = length (x1 x) \<and> list_all (\<lambda>k. 0 \<le> k) (x4 x)) [dev_b, dev_a]"
    by (simp add: dev_a_def dev_b_def)
  have h4: "(1::nat) < length [dev_b, dev_a]" by simp
  have h5: "(1::nat) < length (context_id dev_batch ! 1)" by (simp add: dev_batch_def)
  from C5_one_hot [OF h1 h2 h3 h4 h5] obtain ct ce p q where
    t: "context_tag dev_batch = Some ct" "context_ent dev_batch = Some ce" by blast
  then have "ct ! 1 ! 1 = [0, 0, 1]" "ce ! 1 ! 1 = [1, 0]" by (auto simp: dev_batch_def)
  then show ?thesis using h1 h2 h3 h4 h5 t by blast
qed

text \<open>
  Claim C6. With \<open>evaluation=True\<close> the batches are the sorted chunks in their order, the
  state of \<open>random\<close> is not touched, and any two evaluation generators over the same data
  yield the same batches in the same order, whatever the generator of \<open>random\<close> does.
  With \<open>evaluation=False\<close> the batches are \<open>random.shuffle\<close> of the sorted chunks, taken
  from the current state of \<open>random\<close>: a rearrangement of the chunks in which the batch
  that comes last is the one that the first number drawn picks, and every order of the
  chunks comes out for some draws. The training step of an epoch builds such a generator
  over the training rows from the state of \<open>random\<close> it finds and iterates over its
  batches; the epoch leaves \<open>random\<close> in the state after the shuffle, so that after \<open>n\<close>
  epochs \<open>random\<close> has gone through \<open>n\<close> shuffles, one for each epoch.
\<close>

theorem C6_shuffle_or_keep:
  assumes "BatchGen_init rb cls bert_pad data0 bs gpu0 evaluation bert0 g = Inr (bg, g')"
  shows "\<exists>cs. chunk (sorted_by_len data0) bs = Inr cs \<and>
      (evaluation \<longrightarrow> data bg = cs \<and> g' = g \<and>
         (\<forall>rb2 h bg2 h'. BatchGen_init rb2 cls bert_pad data0 bs gpu0 True bert0 h = Inr (bg2, h')
            \<longrightarrow> BatchGen_iter bg2 = BatchGen_iter bg)) \<and>
      (\<not> evaluation \<longrightarrow>
         (data bg, g') = shuffle rb cs g \<and> mset (data bg) = mset cs \<and>
         (2 \<le> length cs \<longrightarrow> last (data bg) = cs ! (fst (rb (length cs) g) mod length cs)) \<and>
         (\<forall>ys. mset ys = mset cs \<longrightarrow>
            (\<exists>rb2 h bg2 h'. BatchGen_init rb2 cls bert_pad data0 bs gpu0 False bert0 h = Inr (bg2, h')
               \<and> data bg2 = ys)) \<and>
         (randbelow E = rb \<and> py_random w = g \<and> args_batch_size a = bs \<and> args_cuda a = gpu0 \<and>
          opt_bert opt0 = bert0 \<longrightarrow>
            train_pass E cls bert_pad a opt0 data0 model w =
              update_all E a model 0 (BatchGen_iter bg) (w\<lparr>py_random := g'\<rparr>) \<and>
            py_random (snd (run_epoch E cls bert_pad a opt0 data0 dev dev_y epoch0 is_last model best w))
              = g' \<and>
            (\<forall>n r w_end.
               run_epochs E cls bert_pad a opt0 data0 dev dev_y final n epoch0 model best w
                 = (Inr r, w_end)
               \<longrightarrow> py_random w_end = ((\<lambda>h. snd (shuffle rb cs h)) ^^ n) g)))"
proof -
  from BatchGen_init_Inr [OF assms] obtain cs where
    cs: "chunk (sorted_by_len data0) bs = Inr cs" and
    d: "(data bg, g') = (if \<not> evaluation then shuffle rb cs g else (cs, g))" by blast
  have ev: "data bg = cs \<and> g' = g \<and>
         (\<forall>rb2 h bg2 h'. BatchGen_init rb2 cls bert_pad data0 bs gpu0 True bert0 h = Inr (bg2, h')
            \<longrightarrow> BatchGen_iter bg2 = BatchGen_iter bg)" if "evaluation"
  proof -
    have "bg2 = bg"
      if "BatchGen_init rb2 cls bert_pad data0 bs gpu0 True bert0 h = Inr (bg2, h')" for rb2 h bg2 h'
      using that assms cs \<open>evaluation\<close>
      by (auto simp: BatchGen_init_def Let_def split: sum.splits)
    then show ?thesis using d that by auto
  qed
  have s: "(data bg, g') = shuffle rb cs g" if "\<not> evaluation" using d that by simp
  then have fs: "data bg = fst (shuffle rb cs g)" "g' = snd (shuffle rb cs g)" if "\<not> evaluation"
    using that by (metis fst_conv, metis snd_conv)
  have ms: "mset (data bg) = mset cs" if "\<not> evaluation"
    using fs(1) [OF that] by (simp add: shuffle_mset)
  have la: "last (data bg) = cs ! (fst (rb (length cs) g) mod length cs)"
    if "\<not> evaluation" "2 \<le> length cs"
    using fs(1) [OF that(1)] shuffle_last [OF that(2), of rb g] by simp
  have onto: "\<exists>rb2 h bg2 h'. BatchGen_init rb2 cls bert_pad data0 bs gpu0 False bert0 h = Inr (bg2, h')
               \<and> data bg2 = ys" if "mset ys = mset cs" for ys
  proof -
    from shuffle_onto [OF that] obtain h where h: "fst (shuffle word_randbelow cs h) = ys" by blast
    obtain zs h' where z: "shuffle word_randbelow cs h = (zs, h')"
      by (cases "shuffle word_randbelow cs h")
    then have "\<exists>bg2. BatchGen_init word_randbelow cls bert_pad data0 bs gpu0 False bert0 h = Inr (bg2, h')
               \<and> data bg2 = ys"
      using cs h by (simp add: BatchGen_init_def Let_def)
    then show ?thesis by blast
  qed
  have ep: "train_pass E cls bert_pad a opt0 data0 model w =
              update_all E a model 0 (BatchGen_iter bg) (w\<lparr>py_random := g'\<rparr>) \<and>
            py_random (snd (run_epoch E cls bert_pad a opt0 data0 dev dev_y epoch0 is_last model best w))
              = g' \<and>
            (\<forall>n r w_end.
               run_epochs E cls bert_pad a opt0 data0 dev dev_y final n epoch0 model best w
                 = (Inr r, w_end)
               \<longrightarrow> py_random w_end = ((\<lambda>h. snd (shuffle rb cs h)) ^^ n) g)"
    if "\<not> evaluation" "randbelow E = rb" "py_random w = g" "args_batch_size a = bs"
      "args_cuda a = gpu0" "opt_bert opt0 = bert0"
  proof -
    have i: "BatchGen_init (randbelow E) cls bert_pad data0 (args_batch_size a) (args_cuda a) False
             (opt_bert opt0) (py_random w) = Inr (bg, g')"
      using assms that by simp
    have c: "chunk (sorted_by_len data0) (args_batch_size a) = Inr cs" using cs that by simp
    show ?thesis
      using train_pass_py_random(1) [OF i] run_epoch_py_random [OF i]
        run_epochs_py_random [OF c, of E cls bert_pad opt0 dev dev_y final _ epoch0 model best w]
        that(2,3)
      by auto
  qed
  show ?thesis using cs ev s ms la onto ep by blast
qed

theorem C6_shuffle_or_keep_witness:
  "BatchGen_init word_randbelow (Some 3, Some 2) 0 [dev_a, dev_b] 2 False True False (\<lambda>i. i)
     = Inr (dev_gen, \<lambda>i. i) \<and>
   (\<exists>cs. chunk (sorted_by_len [dev_a, dev_b]) 2 = Inr cs \<and> data dev_gen = cs \<and>
      (\<forall>rb2 h bg2 h'.
         BatchGen_init rb2 (Some 3, Some 2) 0 [dev_a, dev_b] 2 False True False h = Inr (bg2, h')
         \<longrightarrow> BatchGen_iter bg2 = BatchGen_iter dev_gen)) \<and>
   BatchGen_init word_randbelow (Some 3, Some 2) 0 [train_a, train_b] 1 False False False (\<lambda>i. i)
     = Inr (train_gen_ab, \<lambda>i. Suc i) \<and>
   BatchGen_init word_randbelow (Some 3, Some 2) 0 [train_a, train_b] 1 False False False (\<lambda>i. Suc i)
     = Inr (train_gen_ba, \<lambda>i. Suc (Suc i)) \<and>
   chunk (sorted_by_len [train_a, train_b]) 1 = Inr [[train_b], [train_a]] \<and>
   data train_gen_ab = [[train_a], [train_b]] \<and>
   data train_gen_ba = [[train_b], [train_a]] \<and>
   last (data train_gen_ab) = [[train_b], [train_a]] ! (fst (word_randbelow 2 (\<lambda>i. i)) mod 2) \<and>
   (\<exists>r w_end.
      run_epochs ext0 (Some 3, Some 2) 0 args_two opt_s [train_a, train_b] [] [] 2 (Suc (Suc 0)) 1
        model_s (Fin 0) world_gpu = (Inr r, w_end) \<and>
      py_random w_end = (\<lambda>i. Suc (Suc i)))"
proof -
  have h1: "BatchGen_init word_randbelow (Some 3, Some 2) 0 [dev_a, dev_b] 2 False True False (\<lambda>i. i)
              = Inr (dev_gen, \<lambda>i. i)" by (rule init_sample)
  have h2: "BatchGen_init word_randbelow (Some 3, Some 2) 0 [train_a, train_b] 1 False False False
              (\<lambda>i. i) = Inr (train_gen_ab, \<lambda>i. Suc i)" by (rule init_train_ab)
  have h3: "BatchGen_init word_randbelow (Some 3, Some 2) 0 [train_a, train_b] 1 False False False
              (\<lambda>i. Suc i) = Inr (train_gen_ba, \<lambda>i. Suc (Suc i))" by (rule init_train_ba)
  note c = chunk_train_sample
  have d: "data train_gen_ab = [[train_a], [train_b]]" "data train_gen_ba = [[train_b], [train_a]]"
    by (simp_all add: train_gen_ab_def train_gen_ba_def)
  have e: "\<exists>cs. chunk (sorted_by_len [dev_a, dev_b]) 2 = Inr cs \<and> data dev_gen = cs \<and>
      (\<forall>rb2 h bg2 h'.
         BatchGen_init rb2 (Some 3, Some 2) 0 [dev_a, dev_b] 2 False True False h = Inr (bg2, h')
         \<longrightarrow> BatchGen_iter bg2 = BatchGen_iter dev_gen)"
    using C6_shuffle_or_keep [OF h1] by blast
  obtain r w_end where
    run: "run_epochs ext0 (Some 3, Some 2) 0 args_two opt_s [train_a, train_b] [] [] 2 (Suc (Suc 0)) 1
        model_s (Fin 0) world_gpu = (Inr r, w_end)"
    using run_two_epochs
    by (cases "run_epochs ext0 (Some 3, Some 2) 0 args_two opt_s [train_a, train_b] [] [] 2
                 (Suc (Suc 0)) 1 model_s (Fin 0) world_gpu") auto
  have a: "randbelow ext0 = word_randbelow" "py_random world_gpu = (\<lambda>i. i)"
    "args_batch_size args_two = 1" "args_cuda args_two = False" "opt_bert opt_s = False"
    by (simp_all add: ext0_def world_gpu_def args_two_def args_fresh_def opt_s_def)
  note T = C6_shuffle_or_keep [OF h2, where E = ext0 and w = world_gpu and a = args_two
      and ?opt0.0 = opt_s and dev = "[]" and dev_y = "[]" and final = 2 and ?epoch0.0 = 1
      and model = model_s and best = "Fin 0" and is_last = False]
  from T obtain cs where
    cs: "chunk (sorted_by_len [train_a, train_b]) 1 = Inr cs" and
    la: "2 \<le> length cs \<longrightarrow>
           last (data train_gen_ab) = cs ! (fst (word_randbelow (length cs) (\<lambda>i. i)) mod length cs)" and
    ep: "randbelow ext0 = word_randbelow \<and> py_random world_gpu = (\<lambda>i. i) \<and>
         args_batch_size args_two = 1 \<and> args_cuda args_two = False \<and> opt_bert opt_s = False \<longrightarrow>
           (\<forall>n r w_end.
              run_epochs ext0 (Some 3, Some 2) 0 args_two opt_s [train_a, train_b] [] [] 2 n 1
                model_s (Fin 0) world_gpu = (Inr r, w_end)
              \<longrightarrow> py_random w_end = ((\<lambda>h. snd (shuffle word_randbelow cs h)) ^^ n) (\<lambda>i. i))"
    by blast
  have cs': "cs = [[train_b], [train_a]]" using cs c by simp
  have l: "last (data train_gen_ab) = [[train_b], [train_a]] ! (fst (word_randbelow 2 (\<lambda>i. i)) mod 2)"
    using la by (simp add: cs' numeral_2_eq_2)
  have "py_random w_end
          = ((\<lambda>h. snd (shuffle word_randbelow [[train_b], [train_a]] h)) ^^ Suc (Suc 0)) (\<lambda>i. i)"
    using ep a run unfolding cs' by blast
  then have "py_random w_end = (\<lambda>i. Suc (Suc i))"
    by (simp add: shuffle_def word_randbelow_def)
  then show ?thesis using h1 h2 h3 c d e l run by blast
qed

text \<open>
  Claim C9. For a positive batch size the batches partition the input: the concatenation
  of all batches is a rearrangement of the input list (the same rows with the same
  multiplicities), and \<open>len(BatchGen)\<close> is the ceiling of \<open>len(data) / batch_size\<close>.
\<close>

theorem C9_batches_partition:
  assumes "0 < bs"
  shows "\<exists>bg g'.
      BatchGen_init rb cls bert_pad data0 bs gpu0 evaluation bert0 g = Inr (bg, g') \<and>
      mset (concat (data bg)) = mset data0 \<and>
      int (BatchGen_len bg) = \<lceil>real (length data0) / real_of_int bs\<rceil>"
proof -
  obtain bg g' where init: "BatchGen_init rb cls bert_pad data0 bs gpu0 evaluation bert0 g = Inr (bg, g')"
    using BatchGen_init_total [OF assms] by blast
  from BatchGen_init_Inr [OF init] obtain cs where
    cs: "chunk (sorted_by_len data0) bs = Inr cs" and
    d: "(data bg, g') = (if \<not> evaluation then shuffle rb cs g else (cs, g))" by blast
  have "data bg = (if \<not> evaluation then fst (shuffle rb cs g) else cs)"
    using d by (metis fst_conv)
  then have ms: "mset (data bg) = mset cs" by (simp add: shuffle_mset)
  have "mset (concat (data bg)) = mset (concat cs)" using ms by (rule mset_concat_cong)
  also have "\<dots> = mset data0" using concat_chunk [OF assms cs] by (simp add: sorted_by_len_def)
  finally have perm: "mset (concat (data bg)) = mset data0" .
  have "length (data bg) = length cs" using ms by (rule mset_eq_length)
  also have "\<dots> = (length data0 + nat bs - 1) div nat bs"
    using length_chunk [OF assms cs] by (simp add: sorted_by_len_def)
  finally have "int (BatchGen_len bg) = int ((length data0 + nat bs - 1) div nat bs)"
    by (simp add: BatchGen_len_def)
  also have "\<dots> = \<lceil>real (length data0) / real (nat bs)\<rceil>"
    using ceiling_nat_div [of "nat bs" "length data0"] assms by simp
  also have "real (nat bs) = real_of_int bs" using assms by simp
  finally show ?thesis using init perm by blast
qed

theorem C9_batches_partition_witness:
  "(0::int) < 2 \<and>
   (\<exists>bg g'.
      BatchGen_init word_randbelow (Some 3, Some 2) 0 [train_a, train_b, train_a] 2 False False False (\<lambda>i. i)
        = Inr (bg, g') \<and>
      mset (concat (data bg)) = mset [train_a, train_b, train_a] \<and>
      int (BatchGen_len bg) = 2)"
proof -
  have h: "(0::int) < 2" by simp
  have "\<lceil>real (length [train_a, train_b, train_a]) / real_of_int 2\<rceil> = 2" by simp
  then show ?thesis
    using h C9_batches_partition [OF h, where ?data0.0 = "[train_a, train_b, train_a]"
      and rb = word_randbelow and cls = "(Some 3, Some 2)" and bert_pad = 0 and ?gpu0.0 = False and evaluation = False
      and ?bert0.0 = False and g = "\<lambda>i. i"]
    by auto
qed

section \<open>The claims about \<open>DocReaderModel\<close> and \<open>main\<close>\<close>

text \<open>
  Claim C8. \<open>predict\<close> is meant to return one prediction per example of the batch, each
  the rounded score of the network, and to leave the parameters and the update counter
  as they are. The source reads the name \<open>opt\<close> where the object's \<open>self.opt\<close> is meant,
  and \<open>opt\<close> is bound neither in \<open>predict\<close> nor in the module: for every model and every
  batch the call puts the network in evaluation mode and raises \<open>NameError\<close>; no list of
  predictions is returned.
\<close>

theorem C8_predict_raises_NameError:
  "predict E self ex = (Inl (NameError ''opt''), self\<lparr>training := False\<rparr>)"
  by (simp add: predict_def lookup_opt)

text \<open>
  Claim C2, amended. For every call \<open>save(filename, epoch, [accuracy, best_eval])\<close> in which
  \<open>torch.save\<close> succeeds, that is, every call that logs \<open>model saved to ...\<close>, the call
  returns normally and the file \<open>filename\<close> holds afterwards a checkpoint with the
  network state dictionary, the optimizer state dictionary, the update counter, the
  state of the loss meter, the options, the epoch, the given accuracy and best score,
  and the states of the three random generators.
\<close>

theorem C2_checkpoint_contents:
  assumes "save E self filename epoch0 [acc, best] w = (r, w')"
    and "log w' = log w @ [(INFO, ''model saved to {}'')]"
  shows "r = Inr () \<and>
    (\<exists>ck. files w' filename = Some (Pickle ck) \<and>
      sd_network (state_dict ck) = network self \<and>
      sd_optimizer (state_dict ck) = optimizer self \<and>
      sd_updates (state_dict ck) = updates self \<and>
      sd_loss (state_dict ck) = train_loss self \<and>
      config ck = opt self \<and> epoch ck = epoch0 \<and> accuracy ck = acc \<and> best_eval ck = best \<and>
      random_state ck = py_random w \<and> torch_state ck = torch_random w \<and>
      torch_cuda_random w = Some (torch_cuda_state ck))"
proof (cases "build_params self epoch0 [acc, best] w")
  case (Inl e)
  then have "w' = w" using assms(1) by (simp add: save_def)
  then show ?thesis using assms(2) by simp
next
  case (Inr params)
  then obtain c where c: "torch_cuda_random w = Some c" and
    p: "params = \<lparr>state_dict = \<lparr>sd_network = network self, sd_optimizer = optimizer self,
                                   sd_updates = updates self, sd_loss = train_loss self\<rparr>,
                    config = opt self, epoch = epoch0, accuracy = acc, best_eval = best,
                    random_state = py_random w, torch_state = torch_random w,
                    torch_cuda_state = c\<rparr>"
    by (auto simp: build_params_def split: option.splits)
  show ?thesis
  proof (cases "save_fault E params filename (files w)")
    case None
    then have "r = Inr ()" "files w' = (files w)(filename \<mapsto> Pickle params)"
      using assms(1) Inr by (auto simp: save_def torch_save_def)
    then show ?thesis using c p by simp
  next
    case (Some a)
    then have "log w' = log w @ [(WARNING, ''[ WARN: Saving failed... continuing anyway. ]'')]"
      using assms(1) Inr by (auto simp: save_def torch_save_def split: prod.splits)
    then show ?thesis using assms(2) by simp
  qed
qed

theorem C2_checkpoint_contents_witness:
  "save ext0 model_s ''ck.pt'' 1 [Fin 1, Fin 0] world_gpu =
     (Inr (), world_gpu\<lparr>files := [''ck.pt'' \<mapsto> Pickle ck_saved],
                        log := [(INFO, ''model saved to {}'')]\<rparr>) \<and>
   log (world_gpu\<lparr>files := [''ck.pt'' \<mapsto> Pickle ck_saved],
                  log := [(INFO, ''model saved to {}'')]\<rparr>)
     = log world_gpu @ [(INFO, ''model saved to {}'')] \<and>
   (\<exists>ck. files (world_gpu\<lparr>files := [''ck.pt'' \<mapsto> Pickle ck_saved],
                            log := [(INFO, ''model saved to {}'')]\<rparr>) ''ck.pt'' = Some (Pickle ck) \<and>
      sd_network (state_dict ck) = network model_s \<and>
      sd_optimizer (state_dict ck) = optimizer model_s \<and>
      sd_updates (state_dict ck) = updates model_s \<and>
      sd_loss (state_dict ck) = train_loss model_s \<and>
      config ck = opt model_s \<and> epoch ck = 1 \<and> accuracy ck = Fin 1 \<and> best_eval ck = Fin 0 \<and>
      random_state ck = py_random world_gpu \<and> torch_state ck = torch_random world_gpu \<and>
      torch_cuda_random world_gpu = Some (torch_cuda_state ck))"
proof -
  have h1: "save ext0 model_s ''ck.pt'' 1 [Fin 1, Fin 0] world_gpu =
     (Inr (), world_gpu\<lparr>files := [''ck.pt'' \<mapsto> Pickle ck_saved],
                        log := [(INFO, ''model saved to {}'')]\<rparr>)"
    by (simp add: save_def build_params_def torch_save_def ext0_def world_gpu_def model_s_def
        ck_saved_def)
  have h2: "log (world_gpu\<lparr>files := [''ck.pt'' \<mapsto> Pickle ck_saved],
                  log := [(INFO, ''model saved to {}'')]\<rparr>)
     = log world_gpu @ [(INFO, ''model saved to {}'')]"
    by (simp add: world_gpu_def)
  show ?thesis using h1 h2 C2_checkpoint_contents [OF h1 h2] by blast
qed

text \<open>
  Claim C2 as stated, for every call, fails where \<open>torch.save\<close> raises: the exception is
  caught, \<open>save\<close> logs the warning and returns, and no checkpoint is in the file.
\<close>

theorem C2_counterexample:
  "save ext_disk_full model_s ''ck.pt'' 1 [Fin 1, Fin 0] world_gpu =
     (Inr (), world_gpu\<lparr>log := [(WARNING, ''[ WARN: Saving failed... continuing anyway. ]'')]\<rparr>) \<and>
   files (world_gpu\<lparr>log := [(WARNING, ''[ WARN: Saving failed... continuing anyway. ]'')]\<rparr>) ''ck.pt''
     = None"
  by (simp add: save_def build_params_def torch_save_def ext_disk_full_def ext0_def world_gpu_def)

text \<open>
  Claim C10, amended. \<open>save\<close> passes no failure of the checkpoint serialization on to its
  caller: whenever \<open>torch.save\<close>, called with the dictionary \<open>params\<close>, raises, the
  exception is caught (whatever it is), a warning is logged and \<open>save\<close> returns
  normally. The files are then as the failed call of \<open>torch.save\<close> left them: \<open>save\<close>
  writes to the target file itself and does not restore it.
\<close>

theorem C10_serialization_failure_caught:
  assumes "build_params self epoch0 scores w = Inr params"
    and "save_fault E params filename (files w) = Some (e, fs)"
  shows "save E self filename epoch0 scores w =
     (Inr (),
      w\<lparr>files := fs,
        log := log w @ [(WARNING, ''[ WARN: Saving failed... continuing anyway. ]'')]\<rparr>)"
  using assms by (simp add: save_def torch_save_def)

theorem C10_serialization_failure_caught_witness:
  "build_params model_s 1 [Fin 1, Fin 0] world_gpu = Inr ck_saved \<and>
   save_fault ext_disk_full ck_saved ''ck.pt'' (files world_gpu) = Some (OSError, files world_gpu) \<and>
   save ext_disk_full model_s ''ck.pt'' 1 [Fin 1, Fin 0] world_gpu =
     (Inr (),
      world_gpu\<lparr>files := files world_gpu,
                log := log world_gpu @ [(WARNING, ''[ WARN: Saving failed... continuing anyway. ]'')]\<rparr>)"
proof -
  have h1: "build_params model_s 1 [Fin 1, Fin 0] world_gpu = Inr ck_saved"
    by (simp add: build_params_def world_gpu_def model_s_def ck_saved_def)
  have h2: "save_fault ext_disk_full ck_saved ''ck.pt'' (files world_gpu)
              = Some (OSError, files world_gpu)"
    by (simp add: ext_disk_full_def ext0_def)
  show ?thesis using h1 h2 C10_serialization_failure_caught [OF h1 h2] by blast
qed

text \<open>
  Claim C10 as stated fails in its last part, on a machine with CUDA: the target file
  holds a checkpoint, \<open>torch.save\<close> opens it for writing and raises; \<open>save\<close> catches the
  exception and returns, and the file no longer holds the checkpoint.
\<close>

theorem C10_counterexample:
  "files world_resume ''models/best_model.pt'' = Some (Pickle ck_s) \<and>
   fst (save ext_truncating model_s ''models/best_model.pt'' 3 [Fin 1, Fin 1] world_resume) = Inr () \<and>
   files (snd (save ext_truncating model_s ''models/best_model.pt'' 3 [Fin 1, Fin 1] world_resume))
     ''models/best_model.pt'' = Some Corrupt"
  by (simp add: save_def build_params_def torch_save_def ext_truncating_def ext0_def
      world_resume_def world_gpu_def)

text \<open>
  What runs before the \<open>try\<close> is not part of the amended claim. On a machine without
  CUDA it raises: \<open>torch.cuda.get_rng_state()\<close> is called whatever the options say,
  where the calls of \<open>torch.cuda\<close> in \<open>setup\<close>, in \<open>main\<close> and in \<open>__init__\<close> are guarded by
  the \<open>cuda\<close> flag.
\<close>

lemma save_raises_without_cuda:
  "save ext0 model_s ''ck.pt'' 1 [Fin 1, Fin 0] world_cpu = (Inl RuntimeError, world_cpu)"
  by (simp add: save_def build_params_def world_cpu_def world_gpu_def)

text \<open>
  Claim C1. On resume the program is meant to re-evaluate the restored model on the
  development set, to exit with status 1 when the accuracy differs from the recorded
  one by more than 0.001, and to go on training otherwise. At a run that resumes from
  \<open>models/best_model.pt\<close>, whose recorded accuracy is the accuracy of the restored network
  on the development set, the program ends with the \<open>NameError\<close> of \<open>predict\<close> during the
  re-evaluation: the accuracies are never compared and training does not go on.
\<close>

theorem C1_resume_stops_in_eval:
  "fst (main ext0 (Some 3, Some 2) 0 args_resumed opt_s [train_a, train_b] [dev_a, dev_b] [1, 1]
          world_resume) = Inl (NameError ''opt'') \<and>
   score (map py_round (forward ext0 (sd_network (state_dict ck_s)) dev_batch)) [1, 1]
     = Inr (accuracy ck_s)"
proof -
  have a: "args_batch_size args_resumed = 2" "args_cuda args_resumed = False"
    "args_resume args_resumed = ''best_model.pt''" "args_resume_options args_resumed = False"
    "args_reduce_lr args_resumed = 0" "args_save_dawn_logs args_resumed = False"
    "args_model_dir args_resumed = ''models''"
    by (simp_all add: args_resumed_def args_fresh_def)
  have e: "evaluate ext0 (Some 3, Some 2) 0 args_resumed False model [dev_a, dev_b] dev_y w =
     (Inl (NameError ''opt''), model\<lparr>training := False\<rparr>, w)" if "py_random w = (\<lambda>i. i)"
    for model dev_y and w :: "(nat, nat, nat) world"
    using evaluate_sample [of ext0 model dev_y w]
    by (simp add: evaluate_def args_resumed_def args_fresh_def)
  have r: "random_state ck_s = (\<lambda>i. i)" by (simp add: ck_s_def)
  have 1: "fst (main ext0 (Some 3, Some 2) 0 args_resumed opt_s [train_a, train_b] [dev_a, dev_b]
          [1, 1] world_resume) = Inl (NameError ''opt'')"
    by (simp add: main_def resume_def a torch_load_sample model_resumed e r Let_def)
  have 2: "score (map py_round (forward ext0 (sd_network (state_dict ck_s)) dev_batch)) [1, 1]
     = Inr (accuracy ck_s)"
    by (simp add: score_def ext0_def dev_batch_def ck_s_def py_round_def)
  show ?thesis using 1 2 by blast
qed

text \<open>
  Claim C7. Every epoch is meant to train, then evaluate, then save. At a run from
  scratch over two training rows and two development rows, on a machine where saving
  would succeed, the first epoch trains on its batch and then ends the program with the
  \<open>NameError\<close> of \<open>predict\<close> on the first development batch: the log stops after the
  training records, and no checkpoint and no \<open>best_model.pt\<close> is written.
\<close>

theorem C7_epoch_stops_in_eval:
  "main ext0 (Some 3, Some 2) 0 args_fresh opt_s [train_a, train_b] [dev_a, dev_b] [1, 1] world_gpu =
     (Inl (NameError ''opt''),
      world_gpu\<lparr>log := [(INFO, ''[Data loaded.]''), (WARNING, ''Epoch {}''),
         (INFO, ''> epoch [{0:2}] updates[{1:6}] train loss[{2:.5f}] remaining[{3}]''),
         (DEBUG, [CHR 0x0A])]\<rparr>)"
proof -
  have a: "args_batch_size args_fresh = 2" "args_cuda args_fresh = False"
    "args_resume args_fresh = []" "args_epochs args_fresh = 1" "args_save_dawn_logs args_fresh = False"
    "args_log_per_updates args_fresh = 3"
    by (simp_all add: args_fresh_def)
  have w: "py_random world_gpu = (\<lambda>i. i)" "log world_gpu = []" by (simp_all add: world_gpu_def)
  have o: "opt_bert opt_s = False" by (simp add: opt_s_def)
  show ?thesis
    by (simp add: main_def a w o model_fresh run_epoch_def train_pass_def init_train_sample iter_train_gen
        update_sample evaluate_sample Let_def)
qed

end
